theory Spec2Isabelle
  imports Complex_Main "HOL-Library.Multiset" "HOL-Library.Sublist"
begin

chapter \<open>DePIN compatibility prediction: scorer, aggregator and catalog loader\<close>

text \<open>
  A shallow embedding of the Go packages \<open>models\<close>, \<open>service\<close> and \<open>data\<close> of
  api-predict. Conventions of the embedding:

  \<^item> Go \<open>int\<close> (64 bit, two's complement) is \<open>int\<close>; the only arithmetic the code does
    on it that can leave the 64-bit range is the doubling in \<open>calculatePerformanceBonus\<close>,
    which is written with its wrap-around (\<open>go_mul\<close>).
  \<^item> The scorer's \<open>float64\<close> score is an exact real: a sum of a handful of decimal
    constants that is only compared and clamped; its rounding is not part of the model.
  \<^item> The aggregator's \<open>float64\<close> arithmetic (the conversions of the lengths, the
    quotients and the product by 100) is IEEE 754 binary64 with rounding to nearest,
    ties to even (type \<open>f64\<close>, function \<open>round64\<close>); the two zeros are one value.
  \<^item> Go \<open>string\<close> is a list of bytes; the library functions \<open>strings.TrimSpace\<close>,
    \<open>ToLower\<close>, \<open>ToUpper\<close> are modelled on ASCII: white space and letters outside
    ASCII pass unchanged.
  \<^item> \<open>len\<close>, loop counters and issue counters are natural numbers.
\<close>

section \<open>Go library functions used by the code\<close>

definition wrap64 :: "int \<Rightarrow> int" where
  "wrap64 x = (x + 2 ^ 63) mod 2 ^ 64 - 2 ^ 63"

definition go_mul :: "int \<Rightarrow> int \<Rightarrow> int" where
  "go_mul a b = wrap64 (a * b)"

definition digit :: "nat \<Rightarrow> char" where
  "digit n = ''0123456789'' ! n"

function digits10 :: "nat \<Rightarrow> string" where
  "digits10 n = (if n < 10 then [digit n] else digits10 (n div 10) @ [digit (n mod 10)])"
  by pat_completeness auto
termination
  by (relation "measure id") auto

declare digits10.simps [simp del]

text \<open>The verb \<open>%d\<close> of \<open>fmt.Sprintf\<close> on an \<open>int\<close>.\<close>

definition fmt_d :: "int \<Rightarrow> string" where
  "fmt_d i = (if i < 0 then CHR ''-'' # digits10 (nat (- i)) else digits10 (nat i))"

definition is_space :: "char \<Rightarrow> bool" where
  "is_space c = (c = CHR '' '' \<or> c = CHR 0x09 \<or> c = CHR 0x0A \<or> c = CHR 0x0B
                 \<or> c = CHR 0x0C \<or> c = CHR 0x0D)"

definition TrimSpace :: "string \<Rightarrow> string" where
  "TrimSpace s = rev (dropWhile is_space (rev (dropWhile is_space s)))"

text \<open>\<open>strings.Split(s, sep)\<close> for a one-byte separator: the pieces between separators,
  empty pieces kept, one piece for a string without separator.\<close>

fun Split :: "string \<Rightarrow> char \<Rightarrow> string list" where
  "Split [] sep = [[]]"
| "Split (c # cs) sep =
     (if c = sep then [] # Split cs sep
      else (case Split cs sep of [] \<Rightarrow> [[c]] | p # ps \<Rightarrow> (c # p) # ps))"

text \<open>\<open>strings.Contains(s, sub)\<close>: \<open>sub\<close> occurs in \<open>s\<close> as a contiguous run of bytes.\<close>

fun Contains :: "string \<Rightarrow> string \<Rightarrow> bool" where
  "Contains [] sub = (sub = [])"
| "Contains (c # cs) sub = (prefix sub (c # cs) \<or> Contains cs sub)"

text \<open>\<open>strings.ToLower\<close>, \<open>strings.ToUpper\<close> and \<open>strings.ReplaceAll\<close> for
  one-byte patterns, on ASCII.\<close>

definition upper_letters :: string where
  "upper_letters = ''ABCDEFGHIJKLMNOPQRSTUVWXYZ''"

definition lower_letters :: string where
  "lower_letters = ''abcdefghijklmnopqrstuvwxyz''"

definition ToLower :: "string \<Rightarrow> string" where
  "ToLower s = map (\<lambda>c. case map_of (zip upper_letters lower_letters) c of
                             Some l \<Rightarrow> l | None \<Rightarrow> c) s"

definition ToUpper :: "string \<Rightarrow> string" where
  "ToUpper s = map (\<lambda>c. case map_of (zip lower_letters upper_letters) c of
                             Some u \<Rightarrow> u | None \<Rightarrow> c) s"

definition ReplaceAll :: "string \<Rightarrow> char \<Rightarrow> char \<Rightarrow> string" where
  "ReplaceAll s old new = map (\<lambda>c. if c = old then new else c) s"

text \<open>\<open>strconv.Atoi\<close>: an optional sign, then one or more decimal digits; an error
  (here \<open>None\<close>) on anything else and on a value outside the 64-bit range.\<close>

definition is_digit :: "char \<Rightarrow> bool" where
  "is_digit c = (let n = (of_char c :: nat) in 48 \<le> n \<and> n \<le> 57)"

definition digits_value :: "string \<Rightarrow> nat" where
  "digits_value ds = foldl (\<lambda>acc c. acc * 10 + (of_char c - 48)) 0 ds"

definition Atoi :: "string \<Rightarrow> int option" where
  "Atoi s =
     (let neg = (s \<noteq> [] \<and> hd s = CHR ''-'');
          ds = (if s \<noteq> [] \<and> (hd s = CHR ''-'' \<or> hd s = CHR ''+'') then tl s else s);
          v = (if neg then - int (digits_value ds) else int (digits_value ds))
      in if ds = [] \<or> \<not> list_all is_digit ds then None
         else if v < - (2 ^ 63) \<or> v > 2 ^ 63 - 1 then None
         else Some v)"

text \<open>\<open>strings.Join(elems, sep)\<close>.\<close>

fun Join :: "string list \<Rightarrow> string \<Rightarrow> string" where
  "Join [] sep = []"
| "Join [x] sep = x"
| "Join (x # y # ys) sep = x @ sep @ Join (y # ys) sep"

section \<open>Package models\<close>

record SystemSpec =
  CPUCores :: int
  RAMGB :: int
  StorageGB :: int
  HasSSD :: bool
  HasGPU :: bool
  GPUVRAMGB :: int
  NetworkMbps :: int
  OS :: string

record DePINProject =
  Name :: string
  Type :: string
  NodeType :: string
  CPUCoresMin :: int
  RAMGBMin :: int
  RAMGBRecommended :: int
  StorageGBMin :: int
  StorageType :: string
  GPURequired :: bool
  GPUVRAMGBMin :: int
  NetworkMbpsMin :: int
  SupportedOS :: string
  EstimatedCostMin :: int
  EstimatedCostMax :: int
  CostCategory :: string
  HomeFriendly :: bool
  Description :: string

text \<open>The field \<open>Name\<close> of the Go struct \<open>CompatibilityResult\<close> is \<open>ResultName\<close> here
  (records of one theory cannot share a field name).\<close>

record CompatibilityResult =
  ResultName :: string
  Compatible :: bool
  CompatibilityScore :: real
  PerformanceRating :: string
  EstimatedCost :: string
  MissingRequirements :: "string list"
  RecommendedUpgrades :: "string list"
  Warnings :: "string list"

definition RatingExcellent :: string where "RatingExcellent = ''Excellent''"
definition RatingGood :: string where "RatingGood = ''Good''"
definition RatingFair :: string where "RatingFair = ''Fair''"
definition RatingPoor :: string where "RatingPoor = ''Poor''"

definition ScoreExcellent :: real where "ScoreExcellent = 0.9"
definition ScoreGood :: real where "ScoreGood = 0.7"
definition ScoreFair :: real where "ScoreFair = 0.5"

definition GetPerformanceRating :: "real \<Rightarrow> string" where
  "GetPerformanceRating score =
     (if score \<ge> ScoreExcellent then RatingExcellent
      else if score \<ge> ScoreGood then RatingGood
      else if score \<ge> ScoreFair then RatingFair
      else RatingPoor)"

section \<open>Package service: the scorer\<close>

definition isOSCompatible :: "string \<Rightarrow> string \<Rightarrow> bool" where
  "isOSCompatible systemOS supportedOS =
     (if supportedOS = [] then True
      else list_ex (\<lambda>os. TrimSpace os = systemOS) (Split supportedOS CHR '',''))"

definition calculatePerformanceBonus :: "SystemSpec \<Rightarrow> DePINProject \<Rightarrow> real" where
  "calculatePerformanceBonus system project =
     (let bonus = 0;
          bonus = (if CPUCores system > go_mul (CPUCoresMin project) 2 then bonus + 0.05
                   else if CPUCores system > CPUCoresMin project then bonus + 0.02
                   else bonus);
          bonus = (if RAMGB system > go_mul (RAMGBRecommended project) 2 then bonus + 0.05
                   else if RAMGB system > RAMGBRecommended project then bonus + 0.02
                   else bonus);
          bonus = (if NetworkMbps system > go_mul (NetworkMbpsMin project) 2 then bonus + 0.03
                   else bonus);
          bonus = (if HasGPU system \<and> GPUVRAMGB system > 8 then bonus + 0.02 else bonus)
      in min bonus 0.15)"

text \<open>The scorer keeps a result under construction and a local \<open>score\<close>; each check of
  \<open>analyzeProjectCompatibility\<close> is a step on that pair.\<close>

type_synonym scoring = "CompatibilityResult \<times> real"

definition fail_with :: "string \<Rightarrow> real \<Rightarrow> scoring \<Rightarrow> scoring" where
  "fail_with msg penalty st =
     (case st of (result, score) \<Rightarrow>
        (result\<lparr>Compatible := False,
                MissingRequirements := MissingRequirements result @ [msg]\<rparr>,
         score - penalty))"

definition msg_cpu :: "int \<Rightarrow> int \<Rightarrow> string" where
  "msg_cpu need have = ''CPU cores: need '' @ fmt_d need @ '', have '' @ fmt_d have"

definition msg_ram :: "int \<Rightarrow> int \<Rightarrow> string" where
  "msg_ram need have = ''RAM: need '' @ fmt_d need @ ''GB, have '' @ fmt_d have @ ''GB''"

definition msg_ram_upgrade :: "int \<Rightarrow> string" where
  "msg_ram_upgrade rec =
     ''RAM upgrade to '' @ fmt_d rec @ ''GB recommended for optimal performance''"

definition msg_storage :: "int \<Rightarrow> int \<Rightarrow> string" where
  "msg_storage need have =
     ''Storage: need '' @ fmt_d need @ ''GB, have '' @ fmt_d have @ ''GB''"

definition msg_gpu_vram :: "int \<Rightarrow> int \<Rightarrow> string" where
  "msg_gpu_vram need have =
     ''GPU VRAM: need '' @ fmt_d need @ ''GB, have '' @ fmt_d have @ ''GB''"

definition msg_network :: "int \<Rightarrow> int \<Rightarrow> string" where
  "msg_network need have =
     ''Network speed: need '' @ fmt_d need @ ''Mbps, have '' @ fmt_d have @ ''Mbps''"

definition msg_os :: "string \<Rightarrow> string \<Rightarrow> string" where
  "msg_os supported os =
     ''OS not supported: need one of ['' @ supported @ ''], have '' @ os"

definition check_cpu :: "SystemSpec \<Rightarrow> DePINProject \<Rightarrow> scoring \<Rightarrow> scoring" where
  "check_cpu system project st =
     (if CPUCores system < CPUCoresMin project
      then fail_with (msg_cpu (CPUCoresMin project) (CPUCores system)) 0.3 st
      else st)"

definition check_ram :: "SystemSpec \<Rightarrow> DePINProject \<Rightarrow> scoring \<Rightarrow> scoring" where
  "check_ram system project st =
     (if RAMGB system < RAMGBMin project
      then fail_with (msg_ram (RAMGBMin project) (RAMGB system)) 0.3 st
      else if RAMGB system < RAMGBRecommended project
      then (case st of (result, score) \<Rightarrow>
              (result\<lparr>RecommendedUpgrades :=
                         RecommendedUpgrades result @ [msg_ram_upgrade (RAMGBRecommended project)]\<rparr>,
               score - 0.1))
      else st)"

definition check_storage :: "SystemSpec \<Rightarrow> DePINProject \<Rightarrow> scoring \<Rightarrow> scoring" where
  "check_storage system project st =
     (if StorageGB system < StorageGBMin project
      then fail_with (msg_storage (StorageGBMin project) (StorageGB system)) 0.2 st
      else st)"

definition check_ssd :: "SystemSpec \<Rightarrow> DePINProject \<Rightarrow> scoring \<Rightarrow> scoring" where
  "check_ssd system project st =
     (if StorageType project = ''SSD'' \<and> \<not> HasSSD system
      then fail_with ''SSD storage required'' 0.25 st
      else if StorageType project = ''SSD'' \<and> HasSSD system
      then (case st of (result, score) \<Rightarrow> (result, score + 0.05))
      else st)"

definition check_gpu :: "SystemSpec \<Rightarrow> DePINProject \<Rightarrow> scoring \<Rightarrow> scoring" where
  "check_gpu system project st =
     (if GPURequired project \<and> \<not> HasGPU system
      then fail_with ''Dedicated GPU required'' 0.4 st
      else if GPUVRAMGBMin project > 0 \<and> GPUVRAMGB system < GPUVRAMGBMin project
      then fail_with (msg_gpu_vram (GPUVRAMGBMin project) (GPUVRAMGB system)) 0.3 st
      else st)"

definition check_network :: "SystemSpec \<Rightarrow> DePINProject \<Rightarrow> scoring \<Rightarrow> scoring" where
  "check_network system project st =
     (if NetworkMbps system < NetworkMbpsMin project
      then fail_with (msg_network (NetworkMbpsMin project) (NetworkMbps system)) 0.2 st
      else st)"

definition check_os :: "SystemSpec \<Rightarrow> DePINProject \<Rightarrow> scoring \<Rightarrow> scoring" where
  "check_os system project st =
     (if \<not> isOSCompatible (OS system) (SupportedOS project)
      then fail_with (msg_os (SupportedOS project) (OS system)) 0.3 st
      else st)"

definition init_result :: "DePINProject \<Rightarrow> CompatibilityResult" where
  "init_result project =
     \<lparr>ResultName = Name project,
      Compatible = True,
      CompatibilityScore = 1.0,
      PerformanceRating = RatingExcellent,
      EstimatedCost = ''$'' @ fmt_d (EstimatedCostMin project) @ ''-$''
                        @ fmt_d (EstimatedCostMax project) @ ''/month'',
      MissingRequirements = [],
      RecommendedUpgrades = [],
      Warnings = []\<rparr>"

definition run_checks :: "SystemSpec \<Rightarrow> DePINProject \<Rightarrow> scoring" where
  "run_checks system project =
     check_os system project
       (check_network system project
         (check_gpu system project
           (check_ssd system project
             (check_storage system project
               (check_ram system project
                 (check_cpu system project (init_result project, 1.0)))))))"

definition analyzeProjectCompatibility :: "SystemSpec \<Rightarrow> DePINProject \<Rightarrow> CompatibilityResult" where
  "analyzeProjectCompatibility system project =
     (case run_checks system project of (result, score) \<Rightarrow>
        (let score = score + calculatePerformanceBonus system project;
             result = (if \<not> HomeFriendly project
                       then result\<lparr>Warnings := Warnings result
                                      @ [''This project may not be suitable for home use'']\<rparr>
                       else result);
             score = max 0.0 (min 1.0 score)
         in result\<lparr>CompatibilityScore := score,
                    PerformanceRating := GetPerformanceRating score\<rparr>))"

section \<open>Package models: the system rating\<close>

definition SystemEntry :: string where "SystemEntry = ''Entry Level''"
definition SystemMidRange :: string where "SystemMidRange = ''Mid-Range''"
definition SystemHighEnd :: string where "SystemHighEnd = ''High-End''"
definition SystemExtreme :: string where "SystemExtreme = ''Extreme''"

definition GetSystemRating :: "SystemSpec \<Rightarrow> string" where
  "GetSystemRating spec =
     (let score = (0::nat);
          score = (if CPUCores spec \<ge> 12 then score + 3
                   else if CPUCores spec \<ge> 8 then score + 2
                   else if CPUCores spec \<ge> 4 then score + 1 else score);
          score = (if RAMGB spec \<ge> 32 then score + 3
                   else if RAMGB spec \<ge> 16 then score + 2
                   else if RAMGB spec \<ge> 8 then score + 1 else score);
          score = (if HasGPU spec \<and> GPUVRAMGB spec \<ge> 12 then score + 3
                   else if HasGPU spec \<and> GPUVRAMGB spec \<ge> 6 then score + 2
                   else if HasGPU spec then score + 1 else score);
          score = (if HasSSD spec \<and> StorageGB spec \<ge> 1000 then score + 2
                   else if HasSSD spec \<or> StorageGB spec \<ge> 500 then score + 1 else score);
          score = (if NetworkMbps spec \<ge> 500 then score + 2
                   else if NetworkMbps spec \<ge> 100 then score + 1 else score)
      in if score \<ge> 12 then SystemExtreme
         else if score \<ge> 8 then SystemHighEnd
         else if score \<ge> 5 then SystemMidRange
         else SystemEntry)"

section \<open>Package service: the aggregator\<close>

text \<open>
  The values of a \<open>float64\<close>: the finite ones as the reals they stand for, the two
  infinities and NaN.
\<close>

datatype f64 = Fin real | PosInf | NegInf | NaN

text \<open>Powers of two with an integer exponent.\<close>

definition pow2 :: "int \<Rightarrow> real" where
  "pow2 e = (if e \<ge> 0 then 2 ^ nat e else 1 / 2 ^ nat (- e))"

text \<open>Rounding to the nearest integer, a tie to the even one.\<close>

definition rne :: "real \<Rightarrow> int" where
  "rne x = (let f = \<lfloor>x\<rfloor>; d = x - of_int f
            in if d < 1 / 2 then f else if d > 1 / 2 then f + 1
               else if even f then f else f + 1)"

text \<open>The binary exponent of a positive real, \<open>e\<close> with \<open>2^e \<le> a < 2^(e+1)\<close>, found by
  halving or doubling; the first argument bounds the number of steps.\<close>

fun expo :: "nat \<Rightarrow> real \<Rightarrow> int" where
  "expo 0 a = 0"
| "expo (Suc k) a =
     (if a \<ge> 2 then expo k (a / 2) + 1 else if a < 1 then expo k (a * 2) - 1 else 0)"

text \<open>The spacing of the binary64 numbers around \<open>a \<ge> 0\<close>: 53 significant bits from
  the exponent of \<open>a\<close>, and \<open>2^-1074\<close> for the subnormal range below \<open>2^-1022\<close>.\<close>

definition quantum :: "real \<Rightarrow> real" where
  "quantum a = pow2 ((if a < pow2 (- 1022) then - 1022 else expo 1100 a) - 52)"

text \<open>Rounding of a real to binary64: to the nearest multiple of the spacing, a tie to
  the even multiple; a result of magnitude \<open>2^1024\<close> or more is an infinity.\<close>

definition round64 :: "real \<Rightarrow> f64" where
  "round64 x =
     (let a = \<bar>x\<bar>;
          q = quantum a;
          y = of_int (rne (a / q)) * q
      in if y \<ge> pow2 1024 then (if x < 0 then NegInf else PosInf)
         else Fin (if x < 0 then - y else y))"

text \<open>The conversion \<open>float64(n)\<close> of a length.\<close>

definition f64_of_nat :: "nat \<Rightarrow> f64" where
  "f64_of_nat n = round64 (real n)"

text \<open>The quotient \<open>x / y\<close> and the product \<open>x * y\<close> of two \<open>float64\<close>: the exact
  result rounded; \<open>0/0\<close>, \<open>0\<close> times an infinity, a quotient of infinities and anything
  with NaN are NaN.\<close>

fun f64_div :: "f64 \<Rightarrow> f64 \<Rightarrow> f64" where
  "f64_div (Fin a) (Fin b) =
     (if b \<noteq> 0 then round64 (a / b)
      else if a = 0 then NaN else if a > 0 then PosInf else NegInf)"
| "f64_div (Fin a) PosInf = Fin 0"
| "f64_div (Fin a) NegInf = Fin 0"
| "f64_div PosInf (Fin b) = (if b < 0 then NegInf else PosInf)"
| "f64_div NegInf (Fin b) = (if b < 0 then PosInf else NegInf)"
| "f64_div x y = NaN"

fun f64_mul :: "f64 \<Rightarrow> f64 \<Rightarrow> f64" where
  "f64_mul (Fin a) (Fin b) = round64 (a * b)"
| "f64_mul PosInf (Fin b) = (if b = 0 then NaN else if b > 0 then PosInf else NegInf)"
| "f64_mul NegInf (Fin b) = (if b = 0 then NaN else if b > 0 then NegInf else PosInf)"
| "f64_mul (Fin a) PosInf = (if a = 0 then NaN else if a > 0 then PosInf else NegInf)"
| "f64_mul (Fin a) NegInf = (if a = 0 then NaN else if a > 0 then NegInf else PosInf)"
| "f64_mul PosInf PosInf = PosInf"
| "f64_mul NegInf NegInf = PosInf"
| "f64_mul PosInf NegInf = NegInf"
| "f64_mul NegInf PosInf = NegInf"
| "f64_mul x y = NaN"

text \<open>The comparisons \<open>x >= y\<close> and \<open>x == y\<close>; both false when an operand is NaN.\<close>

fun f64_ge :: "f64 \<Rightarrow> f64 \<Rightarrow> bool" where
  "f64_ge (Fin x) (Fin y) = (x \<ge> y)"
| "f64_ge PosInf (Fin y) = True"
| "f64_ge PosInf PosInf = True"
| "f64_ge PosInf NegInf = True"
| "f64_ge (Fin x) NegInf = True"
| "f64_ge NegInf NegInf = True"
| "f64_ge x y = False"

fun f64_eq :: "f64 \<Rightarrow> f64 \<Rightarrow> bool" where
  "f64_eq NaN y = False"
| "f64_eq x NaN = False"
| "f64_eq x y = (x = y)"

type_synonym gotime = int

record CompatibilityService =
  projects :: "DePINProject list"
  startTime :: gotime

record PredictionSummary =
  TotalProjects :: nat
  CompatibleCount :: nat
  IncompatibleCount :: nat
  CompatibilityRate :: f64
  AverageScore :: f64
  SystemRating :: string

record PredictionResponse =
  CompatibleProjects :: "CompatibilityResult list"
  IncompatibleProjects :: "CompatibilityResult list"
  Summary :: PredictionSummary
  Recommendations :: "string list"
  GeneratedAt :: gotime

definition NewCompatibilityService :: "DePINProject list \<Rightarrow> gotime \<Rightarrow> CompatibilityService" where
  "NewCompatibilityService ps now = \<lparr>projects = ps, startTime = now\<rparr>"

subsection \<open>Upgrade needs\<close>

record issue_counts =
  ramIssues :: nat
  cpuIssues :: nat
  gpuIssues :: nat
  storageIssues :: nat
  networkIssues :: nat

text \<open>The body of the inner loop of \<open>analyzeUpgradeNeeds\<close>: a \<open>switch\<close> whose first
  true case is taken.\<close>

definition count_req :: "issue_counts \<Rightarrow> string \<Rightarrow> issue_counts" where
  "count_req c req =
     (if Contains req ''RAM'' then c\<lparr>ramIssues := ramIssues c + 1\<rparr>
      else if Contains req ''CPU'' then c\<lparr>cpuIssues := cpuIssues c + 1\<rparr>
      else if Contains req ''GPU'' then c\<lparr>gpuIssues := gpuIssues c + 1\<rparr>
      else if Contains req ''Storage'' \<or> Contains req ''SSD''
        then c\<lparr>storageIssues := storageIssues c + 1\<rparr>
      else if Contains req ''Network'' then c\<lparr>networkIssues := networkIssues c + 1\<rparr>
      else c)"

definition count_issues :: "CompatibilityResult list \<Rightarrow> issue_counts" where
  "count_issues incompatible =
     foldl (\<lambda>c result. foldl count_req c (MissingRequirements result))
       \<lparr>ramIssues = 0, cpuIssues = 0, gpuIssues = 0, storageIssues = 0, networkIssues = 0\<rparr>
       incompatible"

definition emoji_lead :: string where
  "emoji_lead = [CHR 0xEF, CHR 0xA3, CHR 0xBF, CHR 0xC3, CHR 0xBC]"

definition rec_ram :: string where
  "rec_ram = emoji_lead @ [CHR 0xC3, CHR 0xAD, CHR 0xC3, CHR 0xA6]
     @ '' Consider upgrading RAM for better project compatibility''"

definition rec_cpu :: string where
  "rec_cpu = emoji_lead @ [CHR 0xC3, CHR 0xB1, CHR 0xE2, CHR 0x80, CHR 0xA2, CHR 0xC3, CHR 0x94,
                           CHR 0xE2, CHR 0x88, CHR 0x8F, CHR 0xC3, CHR 0xA8]
     @ '' A CPU upgrade would significantly improve project support''"

definition rec_gpu :: string where
  "rec_gpu = emoji_lead @ [CHR 0xC3, CHR 0xA9, CHR 0xC3, CHR 0x86]
     @ '' Adding a dedicated GPU would unlock AI and compute-intensive projects''"

definition rec_storage :: string where
  "rec_storage = emoji_lead @ [CHR 0xC3, CHR 0xAD, CHR 0xC3, CHR 0xB8]
     @ '' Consider upgrading to SSD storage or increasing capacity''"

definition rec_network :: string where
  "rec_network = emoji_lead @ [CHR 0xC3, CHR 0xA5, CHR 0xC3, CHR 0xAA]
     @ '' Faster internet connection would improve project compatibility''"

definition analyzeUpgradeNeeds :: "SystemSpec \<Rightarrow> CompatibilityResult list \<Rightarrow> string list" where
  "analyzeUpgradeNeeds system incompatible =
     (let recommendations = [];
          c = count_issues incompatible;
          threshold = length incompatible div 3;
          recommendations = (if ramIssues c > threshold
                             then recommendations @ [rec_ram] else recommendations);
          recommendations = (if cpuIssues c > threshold
                             then recommendations @ [rec_cpu] else recommendations);
          recommendations = (if gpuIssues c > threshold
                             then recommendations @ [rec_gpu] else recommendations);
          recommendations = (if storageIssues c > threshold
                             then recommendations @ [rec_storage] else recommendations);
          recommendations = (if networkIssues c > threshold
                             then recommendations @ [rec_network] else recommendations)
      in recommendations)"

subsection \<open>Recommendations\<close>

definition getBestProjects :: "CompatibilityResult list \<Rightarrow> nat \<Rightarrow> CompatibilityResult list" where
  "getBestProjects compatible n =
     (if length compatible \<le> n then compatible else take n compatible)"

definition rec_excellent :: string where
  "rec_excellent = emoji_lead @ [CHR 0xC3, CHR 0xA9, CHR 0xC3, CHR 0xA2]
     @ '' Excellent! Your system is compatible with most DePIN projects.''"

definition rec_good :: string where
  "rec_good = emoji_lead @ [CHR 0xC3, CHR 0xAB, CHR 0xC3, CHR 0xA7]
     @ '' Good compatibility! Your system works well with many DePIN projects.''"

definition rec_fair :: string where
  "rec_fair = [CHR 0xE2, CHR 0x80, CHR 0x9A, CHR 0xC3, CHR 0xB6, CHR 0xE2, CHR 0x80, CHR 0xA0,
               CHR 0xC3, CHR 0x94, CHR 0xE2, CHR 0x88, CHR 0x8F, CHR 0xC3, CHR 0xA8]
     @ '' Fair compatibility. Consider upgrading for better project support.''"

definition rec_limited :: string where
  "rec_limited = emoji_lead @ [CHR 0xC3, CHR 0xAC, CHR 0xC3, CHR 0xA0]
     @ '' Limited compatibility. Upgrades recommended for better DePIN support.''"

definition rec_projects :: "string \<Rightarrow> string" where
  "rec_projects names = emoji_lead @ [CHR 0xC3, CHR 0xB6, CHR 0xC3, CHR 0x84]
     @ '' Recommended projects for your system: '' @ names"

definition generateRecommendations ::
  "CompatibilityService \<Rightarrow> SystemSpec \<Rightarrow> CompatibilityResult list \<Rightarrow> CompatibilityResult list
   \<Rightarrow> string list" where
  "generateRecommendations s system compatible incompatible =
     (let compatibilityRate =
            f64_div (f64_of_nat (length compatible)) (f64_of_nat (length (projects s)));
          recommendations =
            (if f64_ge compatibilityRate (round64 0.8) then [rec_excellent]
             else if f64_ge compatibilityRate (round64 0.6) then [rec_good]
             else if f64_ge compatibilityRate (round64 0.4) then [rec_fair]
             else [rec_limited]);
          upgradeRecommendations = analyzeUpgradeNeeds system incompatible;
          recommendations = recommendations @ upgradeRecommendations
      in if length compatible > 0
         then (let bestProjects = getBestProjects compatible 3;
                   projectNames = map ResultName bestProjects
               in recommendations @ [rec_projects (Join projectNames '', '')])
         else recommendations)"

subsection \<open>PredictCompatibility\<close>

text \<open>
  \<open>sort.Slice\<close> belongs to the Go library; it enters as the parameter \<open>sort_Slice\<close>, a
  function of the comparison and the slice (the library's sort is not stable, and it is
  deterministic). What the aggregator relies on is stated by \<open>sort_contract\<close>: the
  result is a rearrangement of the slice in which no element is followed by one that
  the comparison puts strictly before it.
\<close>

type_synonym 'a sorter = "('a \<Rightarrow> 'a \<Rightarrow> bool) \<Rightarrow> 'a list \<Rightarrow> 'a list"

definition sort_contract :: "CompatibilityResult sorter \<Rightarrow> bool" where
  "sort_contract sort_Slice =
     (\<forall>xs. mset (sort_Slice (\<lambda>a b. CompatibilityScore a > CompatibilityScore b) xs) = mset xs
           \<and> sorted_wrt (\<lambda>a b. CompatibilityScore a \<ge> CompatibilityScore b)
                (sort_Slice (\<lambda>a b. CompatibilityScore a > CompatibilityScore b) xs))"

text \<open>The loop over the catalog, on the triple of the two slices and the running total.\<close>

definition predict_step ::
  "SystemSpec \<Rightarrow> CompatibilityResult list \<times> CompatibilityResult list \<times> real \<Rightarrow> DePINProject
   \<Rightarrow> CompatibilityResult list \<times> CompatibilityResult list \<times> real" where
  "predict_step system st project =
     (case st of (compatible, incompatible, totalScore) \<Rightarrow>
        (let result = analyzeProjectCompatibility system project
         in if Compatible result
            then (compatible @ [result], incompatible, totalScore + CompatibilityScore result)
            else (compatible, incompatible @ [result], totalScore + CompatibilityScore result)))"

text \<open>The second result of the Go function, the error, is \<open>nil\<close> on its only return; the
  clock read by \<open>time.Now()\<close> is the argument \<open>now\<close>. The rate is computed as the code
  writes it, the quotient of the two converted lengths first and the product by 100
  second. The running total of the scores is the exact sum; it is rounded once where it
  enters the average.\<close>

definition PredictCompatibility ::
  "CompatibilityResult sorter \<Rightarrow> CompatibilityService \<Rightarrow> gotime \<Rightarrow> SystemSpec
   \<Rightarrow> PredictionResponse" where
  "PredictCompatibility sort_Slice s now system =
     (case foldl (predict_step system) ([], [], 0) (projects s) of
        (compatible, incompatible, totalScore) \<Rightarrow>
        (let compatible = sort_Slice (\<lambda>a b. CompatibilityScore a > CompatibilityScore b) compatible;
             incompatible = sort_Slice (\<lambda>a b. CompatibilityScore a > CompatibilityScore b) incompatible;
             summary = \<lparr>TotalProjects = length (projects s),
                        CompatibleCount = length compatible,
                        IncompatibleCount = length incompatible,
                        CompatibilityRate =
                          f64_mul (f64_div (f64_of_nat (length compatible))
                                           (f64_of_nat (length (projects s))))
                                  (Fin 100),
                        AverageScore =
                          f64_div (round64 totalScore) (f64_of_nat (length (projects s))),
                        SystemRating = GetSystemRating system\<rparr>;
             recommendations = generateRecommendations s system compatible incompatible
         in \<lparr>CompatibleProjects = compatible,
             IncompatibleProjects = incompatible,
             Summary = summary,
             Recommendations = recommendations,
             GeneratedAt = now\<rparr>))"

text \<open>A sorting function that meets \<open>sort_contract\<close>: straight insertion, which is what
  \<open>sort.Slice\<close> runs on slices of at most twelve elements.\<close>

fun insert_less :: "('a \<Rightarrow> 'a \<Rightarrow> bool) \<Rightarrow> 'a \<Rightarrow> 'a list \<Rightarrow> 'a list" where
  "insert_less lt x [] = [x]"
| "insert_less lt x (y # ys) = (if lt x y then x # y # ys else y # insert_less lt x ys)"

definition insertionSort :: "'a sorter" where
  "insertionSort lt xs = foldl (\<lambda>acc x. insert_less lt x acc) [] xs"

section \<open>Package data: the catalog loader\<close>

text \<open>
  The loader reads through \<open>os.Open\<close> and \<open>encoding/csv\<close>. Its input is what these
  report: \<open>None\<close> when the file cannot be opened, otherwise the outcomes of the
  successive calls of \<open>reader.Read()\<close> up to the end of the file, each one a record (the
  fields of one CSV line) or an error other than \<open>io.EOF\<close> (a line that is not
  well-formed CSV, such as one with a bare quote inside an unquoted field, or a failed
  read). After the last outcome \<open>Read\<close> returns \<open>io.EOF\<close>.
\<close>

datatype read_result = Row "string list" | ReadError

type_synonym csv_file = "read_result list option"

datatype validation_error =
    NameMissing
  | InvalidCPUCoresMin int
  | InvalidRAMMin int
  | InvalidStorageMin int
  | InvalidNetworkMin int

datatype parse_error = ProjectNameRequired | ValidationFailed validation_error

datatype load_error = OpenFailed | HeaderReadFailed | LineReadFailed nat | NoValidProjects

text \<open>\<open>createFieldMap\<close>: later columns overwrite earlier ones of the same normalised name.\<close>

fun createFieldMap_from :: "nat \<Rightarrow> string list \<Rightarrow> (string \<rightharpoonup> nat) \<Rightarrow> (string \<rightharpoonup> nat)" where
  "createFieldMap_from i [] fieldMap = fieldMap"
| "createFieldMap_from i (field # rest) fieldMap =
     (let normalizedField = ToLower (ReplaceAll (TrimSpace field) CHR '' '' CHR ''_'')
      in createFieldMap_from (i + 1) rest (fieldMap(normalizedField \<mapsto> i)))"

definition createFieldMap :: "string list \<Rightarrow> (string \<rightharpoonup> nat)" where
  "createFieldMap header = createFieldMap_from 0 header Map.empty"

fun getStringField :: "string list \<Rightarrow> (string \<rightharpoonup> nat) \<Rightarrow> string list \<Rightarrow> string" where
  "getStringField record fieldMap [] = []"
| "getStringField record fieldMap (fieldName # rest) =
     (case fieldMap fieldName of
        Some idx \<Rightarrow>
          (if idx < length record
           then (let v = TrimSpace (record ! idx)
                 in if v \<noteq> [] then v else getStringField record fieldMap rest)
           else getStringField record fieldMap rest)
      | None \<Rightarrow> getStringField record fieldMap rest)"

fun getIntField :: "string list \<Rightarrow> (string \<rightharpoonup> nat) \<Rightarrow> string list \<Rightarrow> int" where
  "getIntField record fieldMap [] = 0"
| "getIntField record fieldMap (fieldName # rest) =
     (case fieldMap fieldName of
        Some idx \<Rightarrow>
          (if idx < length record
           then (let v = TrimSpace (record ! idx)
                 in if v \<noteq> []
                    then (case Atoi v of Some intVal \<Rightarrow> intVal
                          | None \<Rightarrow> getIntField record fieldMap rest)
                    else getIntField record fieldMap rest)
           else getIntField record fieldMap rest)
      | None \<Rightarrow> getIntField record fieldMap rest)"

fun getBoolField :: "string list \<Rightarrow> (string \<rightharpoonup> nat) \<Rightarrow> string list \<Rightarrow> bool" where
  "getBoolField record fieldMap [] = False"
| "getBoolField record fieldMap (fieldName # rest) =
     (case fieldMap fieldName of
        Some idx \<Rightarrow>
          (if idx < length record
           then (let v = ToUpper (TrimSpace (record ! idx))
                 in v = ''TRUE'' \<or> v = ''1'' \<or> v = ''YES'' \<or> v = ''Y'')
           else getBoolField record fieldMap rest)
      | None \<Rightarrow> getBoolField record fieldMap rest)"

text \<open>
  \<open>validateProject\<close> receives the project by value (\<open>project models.DePINProject\<close>), so
  its assignments change the callee's copy only. \<open>validateProject_copy\<close> is the function
  body on that copy: the error it returns, or the copy as it stands when the function
  returns \<open>nil\<close>. The caller sees the error alone.
\<close>

definition validateProject_copy :: "DePINProject \<Rightarrow> validation_error + DePINProject" where
  "validateProject_copy project =
     (if Name project = [] then Inl NameMissing
      else if CPUCoresMin project < 0 \<or> CPUCoresMin project > 64
        then Inl (InvalidCPUCoresMin (CPUCoresMin project))
      else if RAMGBMin project < 0 \<or> RAMGBMin project > 1024
        then Inl (InvalidRAMMin (RAMGBMin project))
      else if StorageGBMin project < 0 \<or> StorageGBMin project > 100000
        then Inl (InvalidStorageMin (StorageGBMin project))
      else if NetworkMbpsMin project < 0 \<or> NetworkMbpsMin project > 100000
        then Inl (InvalidNetworkMin (NetworkMbpsMin project))
      else
        (let project = (if Type project = [] then project\<lparr>Type := ''Unknown''\<rparr> else project);
             project = (if NodeType project = []
                        then project\<lparr>NodeType := ''Standard''\<rparr> else project);
             project = (if StorageType project = []
                        then project\<lparr>StorageType := ''Any''\<rparr> else project);
             project = (if CostCategory project = []
                        then (if EstimatedCostMax project \<le> 20
                              then project\<lparr>CostCategory := ''Low''\<rparr>
                              else if EstimatedCostMax project \<le> 100
                              then project\<lparr>CostCategory := ''Medium''\<rparr>
                              else project\<lparr>CostCategory := ''High''\<rparr>)
                        else project);
             project = (if SupportedOS project = []
                        then project\<lparr>SupportedOS := ''Linux,Windows,macOS''\<rparr> else project)
         in Inr project))"

definition validateProject :: "DePINProject \<Rightarrow> validation_error option" where
  "validateProject project =
     (case validateProject_copy project of Inl err \<Rightarrow> Some err | Inr _ \<Rightarrow> None)"

definition parseProjectRecord ::
  "string list \<Rightarrow> (string \<rightharpoonup> nat) \<Rightarrow> nat \<Rightarrow> parse_error + DePINProject" where
  "parseProjectRecord record fieldMap lineNumber =
     (let name = getStringField record fieldMap [''project_name'', ''name'']
      in if name = [] then Inl ProjectNameRequired
         else
          (let project =
             \<lparr>Name = name,
              Type = getStringField record fieldMap [''project_type'', ''type''],
              NodeType = getStringField record fieldMap [''node_type''],
              CPUCoresMin = getIntField record fieldMap [''cpu_cores_min''],
              RAMGBMin = getIntField record fieldMap [''ram_gb_min'', ''ram_min_gb''],
              RAMGBRecommended =
                getIntField record fieldMap [''ram_gb_recommended'', ''ram_recommended_gb''],
              StorageGBMin = getIntField record fieldMap [''storage_gb_min'', ''storage_min_gb''],
              StorageType = getStringField record fieldMap [''storage_type''],
              GPURequired = getBoolField record fieldMap [''gpu_required''],
              GPUVRAMGBMin = getIntField record fieldMap [''gpu_vram_gb_min'', ''gpu_vram_min_gb''],
              NetworkMbpsMin =
                getIntField record fieldMap [''network_speed_mbps_min'', ''network_mbps_min''],
              SupportedOS = getStringField record fieldMap [''supported_os'', ''os_support''],
              EstimatedCostMin =
                getIntField record fieldMap [''estimated_monthly_cost_usd_min'', ''cost_min''],
              EstimatedCostMax =
                getIntField record fieldMap [''estimated_monthly_cost_usd_max'', ''cost_max''],
              CostCategory = getStringField record fieldMap [''cost_category''],
              HomeFriendly = getBoolField record fieldMap [''home_friendly''],
              Description =
                getStringField record fieldMap [''description'', ''additional_requirements'']\<rparr>
           in case validateProject project of
                Some err \<Rightarrow> Inl (ValidationFailed err)
              | None \<Rightarrow> Inr project))"

text \<open>The loop of \<open>LoadDePINSpecs\<close> over the data rows, on the remaining read outcomes,
  the line number and the projects collected so far.\<close>

fun read_rows ::
  "(string \<rightharpoonup> nat) \<Rightarrow> read_result list \<Rightarrow> nat \<Rightarrow> DePINProject list
   \<Rightarrow> load_error + DePINProject list" where
  "read_rows fieldMap [] lineNumber ps = Inr ps"
| "read_rows fieldMap (ReadError # rest) lineNumber ps = Inl (LineReadFailed lineNumber)"
| "read_rows fieldMap (Row record # rest) lineNumber ps =
     (case parseProjectRecord record fieldMap lineNumber of
        Inl err \<Rightarrow> read_rows fieldMap rest (lineNumber + 1) ps
      | Inr project \<Rightarrow> read_rows fieldMap rest (lineNumber + 1) (ps @ [project]))"

definition LoadDePINSpecs :: "csv_file \<Rightarrow> load_error + DePINProject list" where
  "LoadDePINSpecs file =
     (case file of
        None \<Rightarrow> Inl OpenFailed
      | Some [] \<Rightarrow> Inl HeaderReadFailed
      | Some (ReadError # rest) \<Rightarrow> Inl HeaderReadFailed
      | Some (Row header # rest) \<Rightarrow>
          (case read_rows (createFieldMap header) rest 2 [] of
             Inl err \<Rightarrow> Inl err
           | Inr ps \<Rightarrow> if length ps = 0 then Inl NoValidProjects else Inr ps))"

section \<open>The dimensions of the scoring table\<close>

text \<open>The failure conditions of the scorer's dimensions as the design states them, one
  predicate per row of the table; the VRAM row is looked at only when the GPU presence
  check passes, and an empty list of supported systems restricts nothing.\<close>

definition cpu_fails :: "SystemSpec \<Rightarrow> DePINProject \<Rightarrow> bool" where
  "cpu_fails system project = (CPUCores system < CPUCoresMin project)"

definition ram_min_fails :: "SystemSpec \<Rightarrow> DePINProject \<Rightarrow> bool" where
  "ram_min_fails system project = (RAMGB system < RAMGBMin project)"

definition storage_fails :: "SystemSpec \<Rightarrow> DePINProject \<Rightarrow> bool" where
  "storage_fails system project = (StorageGB system < StorageGBMin project)"

definition ssd_fails :: "SystemSpec \<Rightarrow> DePINProject \<Rightarrow> bool" where
  "ssd_fails system project = (StorageType project = ''SSD'' \<and> \<not> HasSSD system)"

definition gpu_presence_fails :: "SystemSpec \<Rightarrow> DePINProject \<Rightarrow> bool" where
  "gpu_presence_fails system project = (GPURequired project \<and> \<not> HasGPU system)"

definition gpu_vram_fails :: "SystemSpec \<Rightarrow> DePINProject \<Rightarrow> bool" where
  "gpu_vram_fails system project =
     (\<not> gpu_presence_fails system project
      \<and> GPUVRAMGBMin project > 0 \<and> GPUVRAMGB system < GPUVRAMGBMin project)"

definition network_fails :: "SystemSpec \<Rightarrow> DePINProject \<Rightarrow> bool" where
  "network_fails system project = (NetworkMbps system < NetworkMbpsMin project)"

definition os_fails :: "SystemSpec \<Rightarrow> DePINProject \<Rightarrow> bool" where
  "os_fails system project =
     (SupportedOS project \<noteq> []
      \<and> OS system \<notin> set (map TrimSpace (Split (SupportedOS project) CHR '','')))"

definition any_dimension_fails :: "SystemSpec \<Rightarrow> DePINProject \<Rightarrow> bool" where
  "any_dimension_fails system project =
     (cpu_fails system project \<or> ram_min_fails system project
      \<or> storage_fails system project \<or> ssd_fails system project
      \<or> gpu_presence_fails system project \<or> gpu_vram_fails system project
      \<or> network_fails system project \<or> os_fails system project)"

text \<open>The terms of the score before clamping, by the system field they read.\<close>

definition shortfall :: "int \<Rightarrow> int \<Rightarrow> real \<Rightarrow> real" where
  "shortfall have need pen = (if have < need then pen else 0)"

definition ram_penalty :: "int \<Rightarrow> int \<Rightarrow> int \<Rightarrow> real" where
  "ram_penalty have need rec = (if have < need then 0.3 else if have < rec then 0.1 else 0)"

definition step_bonus :: "int \<Rightarrow> int \<Rightarrow> real" where
  "step_bonus have need =
     (if have > go_mul need 2 then 0.05 else if have > need then 0.02 else 0)"

definition net_bonus :: "int \<Rightarrow> int \<Rightarrow> real" where
  "net_bonus have need = (if have > go_mul need 2 then 0.03 else 0)"

definition other_terms :: "bool \<Rightarrow> bool \<Rightarrow> int \<Rightarrow> string \<Rightarrow> DePINProject \<Rightarrow> real" where
  "other_terms ssd gpu vram os p =
     (if StorageType p = ''SSD'' then (if ssd then - 0.05 else 0.25) else 0)
     + (if GPURequired p \<and> \<not> gpu then 0.4
        else if GPUVRAMGBMin p > 0 \<and> vram < GPUVRAMGBMin p then 0.3 else 0)
     + (if isOSCompatible os (SupportedOS p) then 0 else 0.3)"

definition gpu_bonus :: "bool \<Rightarrow> int \<Rightarrow> real" where
  "gpu_bonus gpu vram = (if gpu \<and> vram > 8 then 0.02 else 0)"

section \<open>Concrete systems and projects\<close>

definition scenarioA_system :: SystemSpec where
  "scenarioA_system = \<lparr>CPUCores = 8, RAMGB = 16, StorageGB = 512, HasSSD = True, HasGPU = True,
     GPUVRAMGB = 8, NetworkMbps = 100, OS = ''Windows''\<rparr>"

definition scenarioA_project :: DePINProject where
  "scenarioA_project = \<lparr>Name = ''Filecoin station'', Type = ''Storage'', NodeType = ''Light Node'',
     CPUCoresMin = 4, RAMGBMin = 8, RAMGBRecommended = 16, StorageGBMin = 500,
     StorageType = ''SSD'', GPURequired = False, GPUVRAMGBMin = 0, NetworkMbpsMin = 20,
     SupportedOS = ''Linux,Windows,macOS'', EstimatedCostMin = 10, EstimatedCostMax = 50,
     CostCategory = ''Low'', HomeFriendly = True, Description = []\<rparr>"

definition scenarioB_system :: SystemSpec where
  "scenarioB_system = \<lparr>CPUCores = 2, RAMGB = 4, StorageGB = 100, HasSSD = False, HasGPU = False,
     GPUVRAMGB = 0, NetworkMbps = 10, OS = ''Windows''\<rparr>"

definition scenarioB_project :: DePINProject where
  "scenarioB_project = \<lparr>Name = [], Type = [], NodeType = [], CPUCoresMin = 8, RAMGBMin = 16,
     RAMGBRecommended = 0, StorageGBMin = 1000, StorageType = ''SSD'', GPURequired = True,
     GPUVRAMGBMin = 0, NetworkMbpsMin = 200, SupportedOS = ''Linux'', EstimatedCostMin = 0,
     EstimatedCostMax = 0, CostCategory = [], HomeFriendly = False, Description = []\<rparr>"

section \<open>The categories of upgrade needs\<close>

text \<open>The classification of a missing-requirement entry as the design states it: by
  case-sensitive substring match into one of five categories, the first that matches;
  the number of entries of a category over all incompatible results; and the suggestion
  that belongs to a category.\<close>

datatype category = RAM | CPU | GPU | StorageOrSSD | Network

definition category_of :: "string \<Rightarrow> category option" where
  "category_of req =
     (if Contains req ''RAM'' then Some RAM
      else if Contains req ''CPU'' then Some CPU
      else if Contains req ''GPU'' then Some GPU
      else if Contains req ''Storage'' \<or> Contains req ''SSD'' then Some StorageOrSSD
      else if Contains req ''Network'' then Some Network
      else None)"

definition issues :: "category \<Rightarrow> CompatibilityResult list \<Rightarrow> nat" where
  "issues cat incompatible =
     length (filter (\<lambda>req. category_of req = Some cat)
               (concat (map MissingRequirements incompatible)))"

fun upgrade_message :: "category \<Rightarrow> string" where
  "upgrade_message RAM = rec_ram"
| "upgrade_message CPU = rec_cpu"
| "upgrade_message GPU = rec_gpu"
| "upgrade_message StorageOrSSD = rec_storage"
| "upgrade_message Network = rec_network"

definition suggestion :: "category \<Rightarrow> CompatibilityResult list \<Rightarrow> string list" where
  "suggestion cat incompatible =
     (if issues cat incompatible > length incompatible div 3 then [upgrade_message cat] else [])"

text \<open>The compatibility rate as the design's property states it,
  \<open>100.0 * compatible_count / total_projects\<close>: the product first, then the quotient.\<close>

definition rate_of_counts :: "nat \<Rightarrow> nat \<Rightarrow> f64" where
  "rate_of_counts compatible_count total_projects =
     f64_div (f64_mul (Fin 100) (f64_of_nat compatible_count)) (f64_of_nat total_projects)"

section \<open>A concrete catalog\<close>

definition vram_system :: SystemSpec where
  "vram_system = \<lparr>CPUCores = 8, RAMGB = 16, StorageGB = 512, HasSSD = True, HasGPU = True,
     GPUVRAMGB = 4, NetworkMbps = 100, OS = ''Linux''\<rparr>"

definition render_project :: DePINProject where
  "render_project = \<lparr>Name = ''Render Network'', Type = ''Compute'', NodeType = ''GPU Node'',
     CPUCoresMin = 4, RAMGBMin = 8, RAMGBRecommended = 16, StorageGBMin = 250,
     StorageType = ''SSD'', GPURequired = True, GPUVRAMGBMin = 8, NetworkMbpsMin = 100,
     SupportedOS = ''Linux,Windows'', EstimatedCostMin = 50, EstimatedCostMax = 200,
     CostCategory = ''Medium'', HomeFriendly = True, Description = []\<rparr>"

definition example_service :: CompatibilityService where
  "example_service = NewCompatibilityService [scenarioA_project, scenarioB_project] 1000"

definition restarted_service :: CompatibilityService where
  "restarted_service = NewCompatibilityService [scenarioA_project, scenarioB_project] 2000"

text \<open>A catalog of six projects, four of them compatible with the system of scenario A.\<close>

definition six_projects :: "DePINProject list" where
  "six_projects =
     [scenarioA_project, render_project, scenarioA_project\<lparr>Name := ''Theta Network''\<rparr>,
      scenarioA_project\<lparr>Name := ''Storj''\<rparr>, scenarioB_project,
      scenarioA_project\<lparr>Name := ''Akash Network'', NetworkMbpsMin := 200\<rparr>]"

definition six_service :: CompatibilityService where
  "six_service = NewCompatibilityService six_projects 1000"

section \<open>The outcomes of catalog loading\<close>

text \<open>The conditions under which loading is said to fail, on the input of the loader:
  the source cannot be opened; the header cannot be read (the first read meets the end of
  the file or an error); a data row cannot be read; and the records that remain after
  filtering, which are the projects of the data rows that parse and validate.\<close>

definition source_missing :: "csv_file \<Rightarrow> bool" where
  "source_missing file = (file = None)"

definition header_unreadable :: "csv_file \<Rightarrow> bool" where
  "header_unreadable file =
     (case file of Some [] \<Rightarrow> True | Some (ReadError # rest) \<Rightarrow> True | _ \<Rightarrow> False)"

definition data_rows :: "csv_file \<Rightarrow> read_result list" where
  "data_rows file = (case file of Some (Row header # rest) \<Rightarrow> rest | _ \<Rightarrow> [])"

definition row_read_error :: "read_result list \<Rightarrow> bool" where
  "row_read_error rows = list_ex (\<lambda>r. r = ReadError) rows"

fun valid_projects :: "(string \<rightharpoonup> nat) \<Rightarrow> read_result list \<Rightarrow> DePINProject list" where
  "valid_projects fieldMap [] = []"
| "valid_projects fieldMap (ReadError # rest) = valid_projects fieldMap rest"
| "valid_projects fieldMap (Row record # rest) =
     (case parseProjectRecord record fieldMap 0 of
        Inl err \<Rightarrow> valid_projects fieldMap rest
      | Inr project \<Rightarrow> project # valid_projects fieldMap rest)"

definition valid_records :: "csv_file \<Rightarrow> DePINProject list" where
  "valid_records file =
     (case file of
        Some (Row header # rest) \<Rightarrow> valid_projects (createFieldMap header) rest
      | _ \<Rightarrow> [])"

section \<open>Concrete catalog files\<close>

definition short_header :: "string list" where
  "short_header = [''Project Name'', ''cpu_cores_min'', ''estimated_monthly_cost_usd_max'']"

definition helium_row :: "string list" where
  "helium_row = [''Helium IoT'', ''1'', ''80'']"

definition helium_project :: DePINProject where
  "helium_project = \<lparr>Name = ''Helium IoT'', Type = [], NodeType = [], CPUCoresMin = 1,
     RAMGBMin = 0, RAMGBRecommended = 0, StorageGBMin = 0, StorageType = [],
     GPURequired = False, GPUVRAMGBMin = 0, NetworkMbpsMin = 0, SupportedOS = [],
     EstimatedCostMin = 0, EstimatedCostMax = 80, CostCategory = [], HomeFriendly = False,
     Description = []\<rparr>"

text \<open>A file whose third line is not well-formed CSV (say \<open>Sto"rj,2,60\<close>, a bare quote
  in an unquoted field): the third read returns an error.\<close>

definition bad_quote_file :: csv_file where
  "bad_quote_file = Some [Row short_header, Row helium_row, ReadError]"

text \<open>A file with a row without project name and a row with 128 CPU cores, around a good row.\<close>

definition nameless_row :: "string list" where
  "nameless_row = [[], ''2'', ''10'']"

definition big_row :: "string list" where
  "big_row = [''Big'', ''128'', ''500'']"

definition mixed_file :: csv_file where
  "mixed_file = Some [Row short_header, Row nameless_row, Row helium_row, Row big_row]"

section \<open>Evaluation of the model on concrete inputs\<close>

lemmas scorer_defs = analyzeProjectCompatibility_def run_checks_def check_cpu_def check_ram_def
  check_storage_def check_ssd_def check_gpu_def check_network_def check_os_def fail_with_def
  init_result_def calculatePerformanceBonus_def isOSCompatible_def TrimSpace_def is_space_def
  go_mul_def wrap64_def GetPerformanceRating_def ScoreExcellent_def ScoreGood_def ScoreFair_def
  RatingExcellent_def RatingGood_def RatingFair_def RatingPoor_def
  msg_cpu_def msg_ram_def msg_storage_def msg_gpu_vram_def msg_network_def msg_os_def
  msg_ram_upgrade_def fmt_d_def digits10.simps digit_def Let_def

lemma scenarioB_eval:
  "analyzeProjectCompatibility scenarioB_system scenarioB_project =
     \<lparr>ResultName = [], Compatible = False, CompatibilityScore = 0,
      PerformanceRating = ''Poor'', EstimatedCost = ''$0-$0/month'',
      MissingRequirements =
        [''CPU cores: need 8, have 2'', ''RAM: need 16GB, have 4GB'',
         ''Storage: need 1000GB, have 100GB'', ''SSD storage required'',
         ''Dedicated GPU required'', ''Network speed: need 200Mbps, have 10Mbps'',
         ''OS not supported: need one of [Linux], have Windows''],
      RecommendedUpgrades = [],
      Warnings = [''This project may not be suitable for home use'']\<rparr>"
  by (simp add: scenarioB_system_def scenarioB_project_def scorer_defs)

lemma scenarioA_eval:
  "analyzeProjectCompatibility scenarioA_system scenarioA_project =
     \<lparr>ResultName = ''Filecoin station'', Compatible = True, CompatibilityScore = 1,
      PerformanceRating = ''Excellent'', EstimatedCost = ''$10-$50/month'',
      MissingRequirements = [], RecommendedUpgrades = [], Warnings = []\<rparr>"
  by (simp add: scenarioA_system_def scenarioA_project_def scorer_defs)

lemma scenarioA_slow_network_eval:
  "analyzeProjectCompatibility scenarioA_system (scenarioA_project\<lparr>NetworkMbpsMin := 200\<rparr>) =
     \<lparr>ResultName = ''Filecoin station'', Compatible = False, CompatibilityScore = 0.87,
      PerformanceRating = ''Good'', EstimatedCost = ''$10-$50/month'',
      MissingRequirements = [''Network speed: need 200Mbps, have 100Mbps''],
      RecommendedUpgrades = [], Warnings = []\<rparr>"
  by (simp add: scenarioA_system_def scenarioA_project_def scorer_defs)

section \<open>The scorer: range of the score\<close>

text \<open>
  C1. For every system specification and every project (valid or not), the
  compatibility score returned by \<open>analyzeProjectCompatibility\<close> lies in the interval
  from 0 to 1: the sum of penalties and bonus is clamped last.
\<close>

theorem score_in_unit_interval:
  "0 \<le> CompatibilityScore (analyzeProjectCompatibility system project)
   \<and> CompatibilityScore (analyzeProjectCompatibility system project) \<le> 1"
  by (simp add: analyzeProjectCompatibility_def Let_def split: prod.split)

section \<open>The scorer: the compatible flag\<close>

lemma Compatible_fail_with: "Compatible (fst (fail_with msg pen st)) = False"
  by (simp add: fail_with_def split: prod.split)

lemma Compatible_check_cpu:
  "Compatible (fst (check_cpu s p st)) = (Compatible (fst st) \<and> \<not> cpu_fails s p)"
  by (simp add: check_cpu_def cpu_fails_def Compatible_fail_with)

lemma Compatible_check_ram:
  "Compatible (fst (check_ram s p st)) = (Compatible (fst st) \<and> \<not> ram_min_fails s p)"
  by (simp add: check_ram_def ram_min_fails_def Compatible_fail_with split: prod.split)

lemma Compatible_check_storage:
  "Compatible (fst (check_storage s p st)) = (Compatible (fst st) \<and> \<not> storage_fails s p)"
  by (simp add: check_storage_def storage_fails_def Compatible_fail_with)

lemma Compatible_check_ssd:
  "Compatible (fst (check_ssd s p st)) = (Compatible (fst st) \<and> \<not> ssd_fails s p)"
  by (simp add: check_ssd_def ssd_fails_def Compatible_fail_with split: prod.split)

lemma Compatible_check_gpu:
  "Compatible (fst (check_gpu s p st)) =
     (Compatible (fst st) \<and> \<not> gpu_presence_fails s p \<and> \<not> gpu_vram_fails s p)"
  by (auto simp add: check_gpu_def gpu_presence_fails_def gpu_vram_fails_def Compatible_fail_with)

lemma Compatible_check_network:
  "Compatible (fst (check_network s p st)) = (Compatible (fst st) \<and> \<not> network_fails s p)"
  by (simp add: check_network_def network_fails_def Compatible_fail_with)

lemma isOSCompatible_iff: "isOSCompatible (OS s) (SupportedOS p) = (\<not> os_fails s p)"
  unfolding isOSCompatible_def os_fails_def list_ex_iff set_map
  by (cases "SupportedOS p = []") force+

lemma Compatible_check_os:
  "Compatible (fst (check_os s p st)) = (Compatible (fst st) \<and> \<not> os_fails s p)"
  by (simp add: check_os_def isOSCompatible_iff Compatible_fail_with)

lemma Compatible_run_checks:
  "Compatible (fst (run_checks s p)) = (\<not> any_dimension_fails s p)"
  by (simp add: run_checks_def any_dimension_fails_def Compatible_check_cpu Compatible_check_ram
      Compatible_check_storage Compatible_check_ssd Compatible_check_gpu Compatible_check_network
      Compatible_check_os init_result_def)

lemma Compatible_analyze:
  "Compatible (analyzeProjectCompatibility s p) = Compatible (fst (run_checks s p))"
  by (simp add: analyzeProjectCompatibility_def Let_def split: prod.split)

lemma any_dimension_fails_RAMrec:
  "any_dimension_fails s (p\<lparr>RAMGBRecommended := r\<rparr>) = any_dimension_fails s p"
  by (simp add: any_dimension_fails_def cpu_fails_def ram_min_fails_def storage_fails_def
      ssd_fails_def gpu_presence_fails_def gpu_vram_fails_def network_fails_def os_fails_def)

text \<open>
  C2. The result is compatible exactly when no dimension of the scoring table (CPU cores,
  minimum RAM, storage capacity, SSD requirement, GPU presence, GPU VRAM, network speed,
  OS support) signals failure: any failing dimension makes \<open>Compatible\<close> false, whatever
  the clamped score is, and the flag does not depend on the recommended RAM, so a
  shortfall against the recommendation alone leaves it unchanged.
\<close>

theorem compatible_iff_no_dimension_fails:
  "Compatible (analyzeProjectCompatibility system project) = (\<not> any_dimension_fails system project)
   \<and> Compatible (analyzeProjectCompatibility system (project\<lparr>RAMGBRecommended := r\<rparr>))
       = Compatible (analyzeProjectCompatibility system project)"
  by (simp add: Compatible_analyze Compatible_run_checks any_dimension_fails_RAMrec)

text \<open>At the system of scenario A and its project with the network minimum raised to 200
  Mbps, one dimension fails; the result is incompatible with the score 0.87. With the
  recommended RAM raised to 64 GB instead, the flag stays true.\<close>

theorem compatible_iff_no_dimension_fails_witness:
  "any_dimension_fails scenarioA_system (scenarioA_project\<lparr>NetworkMbpsMin := 200\<rparr>)
   \<and> \<not> Compatible (analyzeProjectCompatibility scenarioA_system
                      (scenarioA_project\<lparr>NetworkMbpsMin := 200\<rparr>))
   \<and> CompatibilityScore (analyzeProjectCompatibility scenarioA_system
                      (scenarioA_project\<lparr>NetworkMbpsMin := 200\<rparr>)) = 0.87
   \<and> Compatible (analyzeProjectCompatibility scenarioA_system
                      (scenarioA_project\<lparr>RAMGBRecommended := 64\<rparr>))"
  using compatible_iff_no_dimension_fails
          [of scenarioA_system "scenarioA_project\<lparr>NetworkMbpsMin := 200\<rparr>" 0]
        compatible_iff_no_dimension_fails [of scenarioA_system scenarioA_project 64]
  by (simp add: scenarioA_slow_network_eval scenarioA_eval)

section \<open>The scorer: scenario B\<close>

text \<open>
  C3, as stated: at the system and the project of scenario B the scorer returns an
  incompatible result with exactly 6 missing requirements, the score 0 and the rating
  Poor. The list has 7 entries, so the statement fails.
\<close>

theorem scenarioB_six_entries_counterexample:
  "\<not> (Compatible (analyzeProjectCompatibility scenarioB_system scenarioB_project) = False
      \<and> length (MissingRequirements
                  (analyzeProjectCompatibility scenarioB_system scenarioB_project)) = 6
      \<and> CompatibilityScore (analyzeProjectCompatibility scenarioB_system scenarioB_project) = 0
      \<and> PerformanceRating (analyzeProjectCompatibility scenarioB_system scenarioB_project)
          = ''Poor'')"
  by (simp add: scenarioB_eval)

text \<open>
  C3, amended: at the system and the project of scenario B the scorer returns an
  incompatible result whose missing requirements are the 7 entries for CPU, RAM, storage
  capacity, SSD, GPU, network and OS in this order, with the score clamped to 0 and the
  rating Poor.
\<close>

theorem scenarioB_result:
  "Compatible (analyzeProjectCompatibility scenarioB_system scenarioB_project) = False
   \<and> length (MissingRequirements
               (analyzeProjectCompatibility scenarioB_system scenarioB_project)) = 7
   \<and> MissingRequirements (analyzeProjectCompatibility scenarioB_system scenarioB_project) =
        [msg_cpu 8 2, msg_ram 16 4, msg_storage 1000 100, ''SSD storage required'',
         ''Dedicated GPU required'', msg_network 200 10, msg_os ''Linux'' ''Windows'']
   \<and> CompatibilityScore (analyzeProjectCompatibility scenarioB_system scenarioB_project) = 0
   \<and> PerformanceRating (analyzeProjectCompatibility scenarioB_system scenarioB_project) = ''Poor''"
  by (simp add: scenarioB_eval msg_cpu_def msg_ram_def msg_storage_def msg_network_def
      msg_os_def fmt_d_def digits10.simps digit_def)

section \<open>The scorer: monotonicity\<close>

lemma snd_fail_with: "snd (fail_with msg pen st) = snd st - pen"
  by (simp add: fail_with_def split: prod.split)

lemma snd_check_cpu:
  "snd (check_cpu s p st) = snd st - shortfall (CPUCores s) (CPUCoresMin p) 0.3"
  by (simp add: check_cpu_def snd_fail_with shortfall_def)

lemma snd_check_ram:
  "snd (check_ram s p st) = snd st - ram_penalty (RAMGB s) (RAMGBMin p) (RAMGBRecommended p)"
  by (simp add: check_ram_def snd_fail_with ram_penalty_def split: prod.split)

lemma snd_check_storage:
  "snd (check_storage s p st) = snd st - shortfall (StorageGB s) (StorageGBMin p) 0.2"
  by (simp add: check_storage_def snd_fail_with shortfall_def)

lemma snd_check_network:
  "snd (check_network s p st) = snd st - shortfall (NetworkMbps s) (NetworkMbpsMin p) 0.2"
  by (simp add: check_network_def snd_fail_with shortfall_def)

lemma snd_check_ssd_gpu_os:
  "snd (check_ssd s p st) =
     snd st - (if StorageType p = ''SSD'' then (if HasSSD s then - 0.05 else 0.25) else 0)"
  "snd (check_gpu s p st) =
     snd st - (if GPURequired p \<and> \<not> HasGPU s then 0.4
               else if GPUVRAMGBMin p > 0 \<and> GPUVRAMGB s < GPUVRAMGBMin p then 0.3 else 0)"
  "snd (check_os s p st) =
     snd st - (if isOSCompatible (OS s) (SupportedOS p) then 0 else 0.3)"
  by (simp_all add: check_ssd_def check_gpu_def check_os_def snd_fail_with split: prod.split)

lemma raw_score_eq:
  "snd (run_checks s p) + calculatePerformanceBonus s p =
     1 - shortfall (CPUCores s) (CPUCoresMin p) 0.3
       - ram_penalty (RAMGB s) (RAMGBMin p) (RAMGBRecommended p)
       - shortfall (StorageGB s) (StorageGBMin p) 0.2
       - shortfall (NetworkMbps s) (NetworkMbpsMin p) 0.2
       - other_terms (HasSSD s) (HasGPU s) (GPUVRAMGB s) (OS s) p
     + min (step_bonus (CPUCores s) (CPUCoresMin p)
            + step_bonus (RAMGB s) (RAMGBRecommended p)
            + net_bonus (NetworkMbps s) (NetworkMbpsMin p)
            + gpu_bonus (HasGPU s) (GPUVRAMGB s)) 0.15"
proof -
  have pen: "snd (run_checks s p) =
     1 - shortfall (CPUCores s) (CPUCoresMin p) 0.3
       - ram_penalty (RAMGB s) (RAMGBMin p) (RAMGBRecommended p)
       - shortfall (StorageGB s) (StorageGBMin p) 0.2
       - shortfall (NetworkMbps s) (NetworkMbpsMin p) 0.2
       - other_terms (HasSSD s) (HasGPU s) (GPUVRAMGB s) (OS s) p"
    unfolding run_checks_def snd_check_cpu snd_check_ram snd_check_storage snd_check_network
      snd_check_ssd_gpu_os other_terms_def
    by simp
  have bon: "calculatePerformanceBonus s p =
     min (step_bonus (CPUCores s) (CPUCoresMin p)
            + step_bonus (RAMGB s) (RAMGBRecommended p)
            + net_bonus (NetworkMbps s) (NetworkMbpsMin p)
            + gpu_bonus (HasGPU s) (GPUVRAMGB s)) 0.15"
    unfolding calculatePerformanceBonus_def Let_def step_bonus_def net_bonus_def gpu_bonus_def
    by simp
  show ?thesis by (simp only: pen bon)
qed

lemma score_analyze:
  "CompatibilityScore (analyzeProjectCompatibility s p) =
     max 0 (min 1 (snd (run_checks s p) + calculatePerformanceBonus s p))"
  by (simp add: analyzeProjectCompatibility_def Let_def split: prod.split)

lemma clamp_mono: "(a::real) \<le> b \<Longrightarrow> max 0 (min 1 a) \<le> max 0 (min 1 b)"
  by auto

lemma shortfall_antimono:
  "x \<le> y \<Longrightarrow> 0 \<le> pen \<Longrightarrow> shortfall y need pen \<le> shortfall x need pen"
  by (simp add: shortfall_def)

lemma ram_penalty_antimono: "x \<le> y \<Longrightarrow> ram_penalty y need rec \<le> ram_penalty x need rec"
  by (simp add: ram_penalty_def)

lemma step_bonus_mono: "x \<le> y \<Longrightarrow> step_bonus x need \<le> step_bonus y need"
  by (simp add: step_bonus_def)

lemma net_bonus_mono: "x \<le> y \<Longrightarrow> net_bonus x need \<le> net_bonus y need"
  by (simp add: net_bonus_def)

lemma mono_cpu:
  assumes "CPUCores s \<le> c"
  shows "snd (run_checks s p) + calculatePerformanceBonus s p
   \<le> snd (run_checks (s\<lparr>CPUCores := c\<rparr>) p)
       + calculatePerformanceBonus (s\<lparr>CPUCores := c\<rparr>) p"
proof -
  have "shortfall c (CPUCoresMin p) 0.3 \<le> shortfall (CPUCores s) (CPUCoresMin p) 0.3"
    using assms by (simp add: shortfall_antimono)
  moreover have "step_bonus (CPUCores s) (CPUCoresMin p) \<le> step_bonus c (CPUCoresMin p)"
    using assms by (rule step_bonus_mono)
  ultimately show ?thesis
    unfolding raw_score_eq by simp
qed

lemma mono_ram:
  assumes "RAMGB s \<le> c"
  shows "snd (run_checks s p) + calculatePerformanceBonus s p
   \<le> snd (run_checks (s\<lparr>RAMGB := c\<rparr>) p)
       + calculatePerformanceBonus (s\<lparr>RAMGB := c\<rparr>) p"
proof -
  have "ram_penalty c (RAMGBMin p) (RAMGBRecommended p)
        \<le> ram_penalty (RAMGB s) (RAMGBMin p) (RAMGBRecommended p)"
    using assms by (rule ram_penalty_antimono)
  moreover have "step_bonus (RAMGB s) (RAMGBRecommended p) \<le> step_bonus c (RAMGBRecommended p)"
    using assms by (rule step_bonus_mono)
  ultimately show ?thesis
    unfolding raw_score_eq by simp
qed

lemma mono_storage:
  assumes "StorageGB s \<le> c"
  shows "snd (run_checks s p) + calculatePerformanceBonus s p
   \<le> snd (run_checks (s\<lparr>StorageGB := c\<rparr>) p)
       + calculatePerformanceBonus (s\<lparr>StorageGB := c\<rparr>) p"
proof -
  have "shortfall c (StorageGBMin p) 0.2 \<le> shortfall (StorageGB s) (StorageGBMin p) 0.2"
    using assms by (simp add: shortfall_antimono)
  then show ?thesis
    unfolding raw_score_eq by simp
qed

lemma mono_network:
  assumes "NetworkMbps s \<le> c"
  shows "snd (run_checks s p) + calculatePerformanceBonus s p
   \<le> snd (run_checks (s\<lparr>NetworkMbps := c\<rparr>) p)
       + calculatePerformanceBonus (s\<lparr>NetworkMbps := c\<rparr>) p"
proof -
  have "shortfall c (NetworkMbpsMin p) 0.2 \<le> shortfall (NetworkMbps s) (NetworkMbpsMin p) 0.2"
    using assms by (simp add: shortfall_antimono)
  moreover have "net_bonus (NetworkMbps s) (NetworkMbpsMin p) \<le> net_bonus c (NetworkMbpsMin p)"
    using assms by (rule net_bonus_mono)
  ultimately show ?thesis
    unfolding raw_score_eq by simp
qed

text \<open>
  C5. Raising one of the system resources \<open>cpu_cores\<close>, \<open>ram_gb\<close>, \<open>storage_gb\<close>,
  \<open>network_mbps\<close> and leaving every other field as it is never lowers the compatibility
  score. This holds for every project, so in particular for one whose requirement on
  the raised dimension is the binding constraint.
\<close>

theorem score_monotone_in_resources:
  "(CPUCores system \<le> c \<longrightarrow>
      CompatibilityScore (analyzeProjectCompatibility system project)
      \<le> CompatibilityScore (analyzeProjectCompatibility (system\<lparr>CPUCores := c\<rparr>) project))
   \<and> (RAMGB system \<le> r \<longrightarrow>
      CompatibilityScore (analyzeProjectCompatibility system project)
      \<le> CompatibilityScore (analyzeProjectCompatibility (system\<lparr>RAMGB := r\<rparr>) project))
   \<and> (StorageGB system \<le> g \<longrightarrow>
      CompatibilityScore (analyzeProjectCompatibility system project)
      \<le> CompatibilityScore (analyzeProjectCompatibility (system\<lparr>StorageGB := g\<rparr>) project))
   \<and> (NetworkMbps system \<le> n \<longrightarrow>
      CompatibilityScore (analyzeProjectCompatibility system project)
      \<le> CompatibilityScore (analyzeProjectCompatibility (system\<lparr>NetworkMbps := n\<rparr>) project))"
  unfolding score_analyze
  by (intro conjI impI clamp_mono mono_cpu mono_ram mono_storage mono_network)

text \<open>The system of scenario B against the project of scenario A, each of the four
  resources raised to the project's minimum in turn.\<close>

theorem score_monotone_in_resources_witness:
  "CPUCores scenarioB_system \<le> 4
   \<and> CompatibilityScore (analyzeProjectCompatibility scenarioB_system scenarioA_project)
      \<le> CompatibilityScore
          (analyzeProjectCompatibility (scenarioB_system\<lparr>CPUCores := 4\<rparr>) scenarioA_project)
   \<and> RAMGB scenarioB_system \<le> 8
   \<and> CompatibilityScore (analyzeProjectCompatibility scenarioB_system scenarioA_project)
      \<le> CompatibilityScore
          (analyzeProjectCompatibility (scenarioB_system\<lparr>RAMGB := 8\<rparr>) scenarioA_project)
   \<and> StorageGB scenarioB_system \<le> 500
   \<and> CompatibilityScore (analyzeProjectCompatibility scenarioB_system scenarioA_project)
      \<le> CompatibilityScore
          (analyzeProjectCompatibility (scenarioB_system\<lparr>StorageGB := 500\<rparr>) scenarioA_project)
   \<and> NetworkMbps scenarioB_system \<le> 20
   \<and> CompatibilityScore (analyzeProjectCompatibility scenarioB_system scenarioA_project)
      \<le> CompatibilityScore
          (analyzeProjectCompatibility (scenarioB_system\<lparr>NetworkMbps := 20\<rparr>) scenarioA_project)"
  using score_monotone_in_resources [of scenarioB_system 4 scenarioA_project 8 500 20]
  by (simp add: scenarioB_system_def)

section \<open>Binary64 rounding\<close>

text \<open>Facts about the rounding of the aggregator's arithmetic: the exponent found by
  \<open>expo\<close> is the binary exponent, rounding in the normal range has a relative error of
  at most \<open>2^-53\<close>, and natural numbers below \<open>2^53\<close> are not changed.\<close>

lemma pow2_powr: "pow2 e = 2 powr (of_int e)"
proof (cases "e \<ge> 0")
  case True
  then show ?thesis
    by (simp add: pow2_def powr_realpow [symmetric])
next
  case False
  then have r: "real (nat (- e)) = - of_int e"
    by simp
  have "(2::real) ^ nat (- e) = 2 powr real (nat (- e))"
    by (simp add: powr_realpow)
  also have "\<dots> = 2 powr (- of_int e)"
    by (simp only: r)
  finally have "1 / (2::real) ^ nat (- e) = 2 powr (of_int e)"
    by (simp add: powr_minus_divide)
  with False show ?thesis
    by (simp add: pow2_def)
qed

lemma pow2_pos: "0 < pow2 e"
  by (simp add: pow2_powr)

lemma pow2_add: "pow2 (a + b) = pow2 a * pow2 b"
  by (simp add: pow2_powr powr_add)

lemma pow2_mono: "a \<le> b \<Longrightarrow> pow2 a \<le> pow2 b"
  by (simp add: pow2_powr)

lemma pow2_0: "pow2 0 = 1" and pow2_1: "pow2 1 = 2"
  by (simp_all add: pow2_def)

lemma pow2_minus: "pow2 (- a) = 1 / pow2 a"
  by (simp add: pow2_powr powr_minus_divide)

lemma expo_bounds:
  "pow2 (- int k) \<le> a \<Longrightarrow> a < pow2 (int k + 1) \<Longrightarrow>
   pow2 (expo k a) \<le> a \<and> a < pow2 (expo k a + 1)"
proof (induction k arbitrary: a)
  case 0
  then show ?case by (simp add: pow2_0 pow2_1)
next
  case (Suc k)
  show ?case
  proof (cases "a \<ge> 2")
    case True
    have "a / 2 < pow2 (int k + 1)"
      using Suc.prems(2) pow2_add [of "int k + 1" 1] by (simp add: pow2_1 algebra_simps)
    moreover have "pow2 (- int k) \<le> a / 2"
    proof -
      have "pow2 (- int k) \<le> pow2 0" by (rule pow2_mono) simp
      with True show ?thesis by (simp add: pow2_0)
    qed
    ultimately have IH: "pow2 (expo k (a / 2)) \<le> a / 2 \<and> a / 2 < pow2 (expo k (a / 2) + 1)"
      by (rule Suc.IH [rotated])
    have "pow2 (expo k (a / 2) + 1) = 2 * pow2 (expo k (a / 2))"
      by (simp add: pow2_add pow2_1)
    moreover have "pow2 (expo k (a / 2) + 1 + 1) = 2 * pow2 (expo k (a / 2) + 1)"
      using pow2_add [of "expo k (a / 2) + 1" 1] by (simp only: pow2_1 mult.commute)
    ultimately show ?thesis using True IH by simp
  next
    case False
    show ?thesis
    proof (cases "a < 1")
      case True
      have "pow2 (- int k) \<le> a * 2"
        using Suc.prems(1) pow2_add [of "- int (Suc k)" 1] by (simp add: pow2_1 algebra_simps)
      moreover have "a * 2 < pow2 (int k + 1)"
      proof -
        have "pow2 1 \<le> pow2 (int k + 1)" by (rule pow2_mono) simp
        with True show ?thesis by (simp add: pow2_1)
      qed
      ultimately have IH: "pow2 (expo k (a * 2)) \<le> a * 2 \<and> a * 2 < pow2 (expo k (a * 2) + 1)"
        by (rule Suc.IH)
      have "pow2 (expo k (a * 2)) = 2 * pow2 (expo k (a * 2) - 1)"
        using pow2_add [of "expo k (a * 2) - 1" 1] by (simp add: pow2_1)
      moreover have "pow2 (expo k (a * 2) + 1) = 2 * pow2 (expo k (a * 2) - 1 + 1)"
        by (simp add: pow2_add pow2_1)
      ultimately show ?thesis using True False IH by simp
    next
      case False
      with \<open>\<not> 2 \<le> a\<close> show ?thesis by (simp add: pow2_0 pow2_1)
    qed
  qed
qed

lemma rne_error: "\<bar>of_int (rne x) - x\<bar> \<le> 1 / 2"
  unfolding rne_def Let_def by (simp; linarith)

lemma rne_of_int: "rne (of_int z) = z"
  by (simp add: rne_def)


lemma quantum_normal:
  assumes "pow2 (- 1022) \<le> a" and "a < pow2 1024"
  obtains e where "quantum a = pow2 (e - 52)" and "pow2 e \<le> a" and "a < pow2 (e + 1)"
proof -
  have "pow2 (- int 1100) \<le> pow2 (- 1022)" by (rule pow2_mono) simp
  with assms(1) have l: "pow2 (- int 1100) \<le> a" by simp
  have "pow2 1024 \<le> pow2 (int 1100 + 1)" by (rule pow2_mono) simp
  with assms(2) have u: "a < pow2 (int 1100 + 1)" by simp
  from expo_bounds [OF l u]
  have "pow2 (expo 1100 a) \<le> a" and "a < pow2 (expo 1100 a + 1)" by simp_all
  moreover from assms(1) have "quantum a = pow2 (expo 1100 a - 52)"
    by (simp add: quantum_def)
  ultimately show ?thesis using that by blast
qed

lemma round64_normal:
  assumes "pow2 (- 1022) \<le> x" and "x < pow2 1023"
  obtains y where "round64 x = Fin y" and "\<bar>y - x\<bar> \<le> x * pow2 (- 53)"
proof -
  have xpos: "0 < x" using assms(1) pow2_pos [of "- 1022"] by linarith
  have "pow2 1023 \<le> pow2 1024" by (rule pow2_mono) simp
  with assms(2) have "x < pow2 1024" by simp
  with assms(1) obtain e where q: "quantum x = pow2 (e - 52)" and l: "pow2 e \<le> x"
    by (rule quantum_normal)
  define m where "m = rne (x / pow2 (e - 52))"
  define y where "y = of_int m * pow2 (e - 52)"
  have qpos: "0 < pow2 (e - 52)" by (rule pow2_pos)
  have "\<bar>of_int m - x / pow2 (e - 52)\<bar> \<le> 1 / 2"
    unfolding m_def by (rule rne_error)
  then have "\<bar>of_int m - x / pow2 (e - 52)\<bar> * pow2 (e - 52) \<le> 1 / 2 * pow2 (e - 52)"
    using qpos by (simp add: mult_right_mono)
  moreover have "\<bar>of_int m - x / pow2 (e - 52)\<bar> * pow2 (e - 52) = \<bar>y - x\<bar>"
  proof -
    have "\<bar>of_int m - x / pow2 (e - 52)\<bar> * pow2 (e - 52)
            = \<bar>(of_int m - x / pow2 (e - 52)) * pow2 (e - 52)\<bar>"
      using qpos by (simp add: abs_mult)
    also have "(of_int m - x / pow2 (e - 52)) * pow2 (e - 52) = y - x"
      using qpos by (simp add: y_def algebra_simps)
    finally show ?thesis .
  qed
  moreover have "1 / 2 * pow2 (e - 52) = pow2 e * pow2 (- 53)"
  proof -
    have "pow2 (e - 52) = pow2 (e + (- 53) + 1)" by simp
    also have "\<dots> = pow2 e * pow2 (- 53) * 2"
      by (simp only: pow2_add pow2_1)
    finally show ?thesis by simp
  qed
  ultimately have err0: "\<bar>y - x\<bar> \<le> pow2 e * pow2 (- 53)" by simp
  have p53: "0 < pow2 (- 53)" by (rule pow2_pos)
  from l p53 have "pow2 e * pow2 (- 53) \<le> x * pow2 (- 53)"
    by (simp add: mult_right_mono)
  with err0 have err: "\<bar>y - x\<bar> \<le> x * pow2 (- 53)" by simp
  have "pow2 (- 53) \<le> pow2 0" by (rule pow2_mono) simp
  then have "x * pow2 (- 53) \<le> x" using xpos by (simp add: pow2_0 mult_left_le)
  with err have "y \<le> 2 * x" by linarith
  moreover have "2 * pow2 1023 = pow2 1024"
    using pow2_add [of 1023 1] by (simp add: pow2_1)
  ultimately have "y < pow2 1024" using assms(2) by linarith
  then have "round64 x = Fin y"
    using xpos by (simp add: round64_def Let_def q y_def m_def)
  with err show ?thesis using that by blast
qed

lemma round64_zero: "round64 0 = Fin 0"
  using pow2_pos [of 1024] by (simp add: round64_def Let_def rne_def)

lemma round64_nat:
  assumes "n < 2 ^ 53"
  shows "round64 (real n) = Fin (real n)"
proof (cases "n = 0")
  case True
  then show ?thesis by (simp add: round64_zero)
next
  case False
  then have n1: "1 \<le> real n" by simp
  have "pow2 (- 1022) \<le> pow2 0" by (rule pow2_mono) simp
  with n1 have lo: "pow2 (- 1022) \<le> real n" by (simp add: pow2_0)
  have n53: "real n < pow2 53"
    using assms by (simp add: pow2_def)
  have "pow2 53 \<le> pow2 1024" by (rule pow2_mono) simp
  with n53 have hi: "real n < pow2 1024" by simp
  from lo hi obtain e where q: "quantum (real n) = pow2 (e - 52)" and l: "pow2 e \<le> real n"
    and u: "real n < pow2 (e + 1)"
    by (rule quantum_normal)
  have "e < 53"
  proof (rule ccontr)
    assume "\<not> e < 53"
    then have "pow2 53 \<le> pow2 e" by (intro pow2_mono) simp
    with l n53 show False by simp
  qed
  then have e52: "0 \<le> 52 - e" by simp
  have inv: "1 / pow2 (e - 52) = 2 ^ nat (52 - e)"
    using e52 pow2_minus [of "e - 52"] by (simp add: pow2_def)
  have "real n / pow2 (e - 52) = real n * (1 / pow2 (e - 52))"
    by simp
  also have "\<dots> = real n * 2 ^ nat (52 - e)"
    by (simp only: inv)
  also have "\<dots> = of_int (int n * 2 ^ nat (52 - e))"
    by simp
  finally have "rne (real n / pow2 (e - 52)) = int n * 2 ^ nat (52 - e)"
    by (simp only: rne_of_int)
  then have "of_int (rne (real n / pow2 (e - 52))) * pow2 (e - 52)
               = real n * (2 ^ nat (52 - e) * pow2 (e - 52))"
    by simp
  also have "2 ^ nat (52 - e) * pow2 (e - 52) = 1"
    using inv pow2_pos [of "e - 52"] by (simp add: field_simps)
  finally have y: "of_int (rne (real n / pow2 (e - 52))) * pow2 (e - 52) = real n"
    by simp
  show ?thesis
    using hi by (simp add: round64_def Let_def q y)
qed


lemma f64_of_nat_exact: "n < 2 ^ 53 \<Longrightarrow> f64_of_nat n = Fin (real n)"
  by (simp add: f64_of_nat_def round64_nat)

lemma expo_numeral:
  "expo (numeral k) a =
     (if a \<ge> 2 then expo (pred_numeral k) (a / 2) + 1
      else if a < 1 then expo (pred_numeral k) (a * 2) - 1 else 0)"
  by (simp add: numeral_eq_Suc)

lemma rate_close:
  assumes "0 < t" and "t < 2 ^ 53" and "c \<le> t"
  obtains y where
    "f64_mul (f64_div (f64_of_nat c) (f64_of_nat t)) (Fin 100) = Fin y"
    and "\<bar>y - 100 * real c / real t\<bar> \<le> 100 * real c / real t * pow2 (- 51)"
proof (cases "c = 0")
  case True
  with assms have "f64_mul (f64_div (f64_of_nat c) (f64_of_nat t)) (Fin 100) = Fin 0"
    by (simp add: f64_of_nat_exact round64_zero)
  with True show ?thesis using that [of 0] by simp
next
  case False
  define x where "x = real c / real t"
  have c53: "c < 2 ^ 53" using assms by simp
  have tpos: "0 < real t" using assms by simp
  have cpos: "1 \<le> real c" using False by simp
  have t53: "real t < 2 ^ 53"
    using assms(2) by (metis of_nat_less_iff of_nat_numeral of_nat_power)
  have p53: "pow2 (- 53) = 1 / 2 ^ 53" by (simp add: pow2_def)
  have "1 / 2 ^ 53 \<le> 1 / real t"
    using tpos t53 by (simp add: frac_le)
  also have "\<dots> \<le> x"
    unfolding x_def using tpos cpos by (simp add: divide_right_mono)
  finally have xlo: "pow2 (- 53) \<le> x" by (simp add: p53)
  have xhi: "x \<le> 1"
    unfolding x_def using assms(3) tpos by simp
  have xpos: "0 < x" using xlo pow2_pos [of "- 53"] by linarith
  have "pow2 (- 1022) \<le> pow2 (- 53)" by (rule pow2_mono) simp
  with xlo have n1: "pow2 (- 1022) \<le> x" by simp
  have big: "(256::real) \<le> pow2 1023"
  proof -
    have "pow2 8 \<le> pow2 1023" by (rule pow2_mono) simp
    then show ?thesis by (simp add: pow2_def)
  qed
  with xhi have n2: "x < pow2 1023" by simp
  from n1 n2 obtain y1 where r1: "round64 x = Fin y1" and e1: "\<bar>y1 - x\<bar> \<le> x * pow2 (- 53)"
    by (rule round64_normal)
  have half: "pow2 (- 53) \<le> 1 / 2"
  proof -
    have "pow2 (- 53) \<le> pow2 (- 1)" by (rule pow2_mono) simp
    then show ?thesis by (simp add: pow2_def)
  qed
  then have xe: "x * pow2 (- 53) \<le> x / 2"
    using xpos by (simp add: mult_left_mono)
  from e1 xe have y1lo: "x / 2 \<le> y1" and y1hi: "y1 \<le> 2 * x" by linarith+
  have m1: "pow2 (- 1022) \<le> y1 * 100" using y1lo n1 xpos by linarith
  have m2: "y1 * 100 < pow2 1023" using y1hi xhi big by linarith
  from m1 m2 obtain y2 where r2: "round64 (y1 * 100) = Fin y2"
    and e2: "\<bar>y2 - y1 * 100\<bar> \<le> y1 * 100 * pow2 (- 53)"
    by (rule round64_normal)
  have p0: "0 \<le> pow2 (- 53)" using pow2_pos [of "- 53"] by simp
  have "y1 * 100 * pow2 (- 53) \<le> 2 * x * 100 * pow2 (- 53)"
    using y1hi p0 by (simp add: mult_right_mono)
  with e2 have e2': "\<bar>y2 - y1 * 100\<bar> \<le> 200 * (x * pow2 (- 53))" by simp
  have am: "\<bar>100 * (y1 - x)\<bar> = 100 * \<bar>y1 - x\<bar>"
    by (subst abs_mult) simp
  have "\<bar>y2 - 100 * x\<bar> = \<bar>(y2 - y1 * 100) + 100 * (y1 - x)\<bar>"
    by (simp add: algebra_simps)
  also have "\<dots> \<le> \<bar>y2 - y1 * 100\<bar> + \<bar>100 * (y1 - x)\<bar>"
    by (rule abs_triangle_ineq)
  also have "\<dots> = \<bar>y2 - y1 * 100\<bar> + 100 * \<bar>y1 - x\<bar>"
    by (simp only: am)
  finally have "\<bar>y2 - 100 * x\<bar> \<le> \<bar>y2 - y1 * 100\<bar> + 100 * \<bar>y1 - x\<bar>" .
  with e2' e1 have "\<bar>y2 - 100 * x\<bar> \<le> 300 * (x * pow2 (- 53))" by linarith
  moreover have "0 \<le> x * pow2 (- 53)" using xpos p0 by simp
  ultimately have "\<bar>y2 - 100 * x\<bar> \<le> 400 * (x * pow2 (- 53))" by linarith
  moreover have "pow2 (- 51) = 4 * pow2 (- 53)"
    by (simp add: pow2_def)
  ultimately have bound: "\<bar>y2 - 100 * x\<bar> \<le> 100 * x * pow2 (- 51)" by simp
  have "f64_mul (f64_div (f64_of_nat c) (f64_of_nat t)) (Fin 100) = Fin y2"
    using assms c53 r1 r2 by (simp add: f64_of_nat_exact x_def)
  with bound show ?thesis using that [of y2] by (simp add: x_def)
qed

lemma rate_empty: "f64_mul (f64_div (f64_of_nat 0) (f64_of_nat 0)) (Fin 100) = NaN"
  by (simp add: f64_of_nat_def round64_zero)


lemma round64_by_parts:
  assumes "0 \<le> x" and "quantum x = q" and "rne (x / q) = m" and "of_int m * q < pow2 1024"
  shows "round64 x = Fin (of_int m * q)"
  using assms by (simp add: round64_def Let_def)

lemmas round64_parts = quantum_def pow2_def expo_numeral rne_def Let_def

lemma round64_half: "round64 (1 / 2) = Fin (1 / 2)"
proof -
  have "round64 (1 / 2) = Fin (of_int 4503599627370496 * (1 / 2 ^ 53))"
    by (rule round64_by_parts) (simp_all add: round64_parts)
  then show ?thesis by simp
qed

lemma quotient_4_6: "f64_div (Fin 4) (Fin 6) = Fin (6004799503160661 / 2 ^ 53)"
proof -
  have "round64 (4 / 6) = Fin (of_int 6004799503160661 * (1 / 2 ^ 53))"
    by (rule round64_by_parts) (simp_all add: round64_parts)
  then show ?thesis by simp
qed

lemma quotient_400_6: "f64_div (Fin 400) (Fin 6) = Fin (4691249611844267 / 2 ^ 46)"
proof -
  have "round64 (400 / 6) = Fin (of_int 4691249611844267 * (1 / 2 ^ 46))"
    by (rule round64_by_parts) (simp_all add: round64_parts)
  then show ?thesis by simp
qed

lemma product_by_100:
  "f64_mul (Fin (6004799503160661 / 2 ^ 53)) (Fin 100) = Fin (4691249611844266 / 2 ^ 46)"
proof -
  have "round64 (6004799503160661 / 2 ^ 53 * 100)
          = Fin (of_int 4691249611844266 * (1 / 2 ^ 46))"
    by (rule round64_by_parts) (simp_all add: round64_parts)
  then show ?thesis by simp
qed

lemma rate_4_of_6:
  "f64_mul (f64_div (f64_of_nat 4) (f64_of_nat 6)) (Fin 100) = Fin (4691249611844266 / 2 ^ 46)"
  "rate_of_counts 4 6 = Fin (4691249611844267 / 2 ^ 46)"
proof -
  have n: "f64_of_nat 4 = Fin 4" "f64_of_nat 6 = Fin 6"
    using f64_of_nat_exact [of 4] f64_of_nat_exact [of 6] by simp_all
  have h: "f64_mul (Fin 100) (Fin 4) = Fin 400"
    using round64_nat [of 400] by simp
  show "f64_mul (f64_div (f64_of_nat 4) (f64_of_nat 6)) (Fin 100)
          = Fin (4691249611844266 / 2 ^ 46)"
    by (simp only: n quotient_4_6 product_by_100)
  show "rate_of_counts 4 6 = Fin (4691249611844267 / 2 ^ 46)"
    by (simp only: rate_of_counts_def n h quotient_400_6)
qed

lemma rate_1_of_2: "f64_mul (f64_div (f64_of_nat 1) (f64_of_nat 2)) (Fin 100) = Fin 50"
proof -
  have n: "f64_of_nat 1 = Fin 1" "f64_of_nat 2 = Fin 2"
    using f64_of_nat_exact [of 1] f64_of_nat_exact [of 2] by simp_all
  have d: "f64_div (Fin 1) (Fin 2) = Fin (1 / 2)"
    by (simp add: round64_half)
  have m: "f64_mul (Fin (1 / 2)) (Fin 100) = Fin 50"
    using round64_nat [of 50] by simp
  show ?thesis by (simp only: n d m)
qed

section \<open>The aggregator: one result per project\<close>

lemma predict_loop:
  "foldl (predict_step system) (c, i, t) ps =
     (c @ filter Compatible (map (analyzeProjectCompatibility system) ps),
      i @ filter (\<lambda>r. \<not> Compatible r) (map (analyzeProjectCompatibility system) ps),
      t + sum_list (map CompatibilityScore (map (analyzeProjectCompatibility system) ps)))"
  by (induction ps arbitrary: c i t) (simp_all add: predict_step_def Let_def)

lemma mset_insert_less: "mset (insert_less lt x ys) = add_mset x (mset ys)"
  by (induction ys) simp_all

lemma mset_insertionSort_aux:
  "mset (foldl (\<lambda>acc x. insert_less lt x acc) acc xs) = mset acc + mset xs"
  by (induction xs arbitrary: acc) (simp_all add: mset_insert_less)

lemma mset_insertionSort: "mset (insertionSort lt xs) = mset xs"
  by (simp add: insertionSort_def mset_insertionSort_aux)

lemma set_insert_less: "set (insert_less lt x ys) = insert x (set ys)"
  by (induction ys) auto

lemma sorted_insert_less:
  "sorted_wrt (\<lambda>a b. CompatibilityScore a \<ge> CompatibilityScore b) ys \<Longrightarrow>
   sorted_wrt (\<lambda>a b. CompatibilityScore a \<ge> CompatibilityScore b)
     (insert_less (\<lambda>a b. CompatibilityScore a > CompatibilityScore b) x ys)"
  by (induction ys) (auto simp add: set_insert_less)

lemma sorted_insertionSort_aux:
  "sorted_wrt (\<lambda>a b. CompatibilityScore a \<ge> CompatibilityScore b) acc \<Longrightarrow>
   sorted_wrt (\<lambda>a b. CompatibilityScore a \<ge> CompatibilityScore b)
     (foldl (\<lambda>acc x. insert_less (\<lambda>a b. CompatibilityScore a > CompatibilityScore b) x acc) acc xs)"
  by (induction xs arbitrary: acc) (simp_all add: sorted_insert_less)

lemma insertionSort_contract: "sort_contract insertionSort"
  unfolding sort_contract_def
  by (simp add: mset_insertionSort) (simp add: insertionSort_def sorted_insertionSort_aux)

lemma predict_fields:
  assumes "sort_contract sort_Slice"
  shows "mset (CompatibleProjects (PredictCompatibility sort_Slice s now system))
           = mset (filter Compatible (map (analyzeProjectCompatibility system) (projects s)))"
    and "mset (IncompatibleProjects (PredictCompatibility sort_Slice s now system))
           = mset (filter (\<lambda>r. \<not> Compatible r)
                     (map (analyzeProjectCompatibility system) (projects s)))"
    and "TotalProjects (Summary (PredictCompatibility sort_Slice s now system))
           = length (projects s)"
    and "CompatibleCount (Summary (PredictCompatibility sort_Slice s now system))
           = length (CompatibleProjects (PredictCompatibility sort_Slice s now system))"
    and "IncompatibleCount (Summary (PredictCompatibility sort_Slice s now system))
           = length (IncompatibleProjects (PredictCompatibility sort_Slice s now system))"
    and "CompatibilityRate (Summary (PredictCompatibility sort_Slice s now system))
           = f64_mul (f64_div
                (f64_of_nat (CompatibleCount (Summary (PredictCompatibility sort_Slice s now system))))
                (f64_of_nat (TotalProjects (Summary (PredictCompatibility sort_Slice s now system)))))
               (Fin 100)"
proof -
  have perm: "mset (sort_Slice (\<lambda>a b. CompatibilityScore a > CompatibilityScore b) xs) = mset xs"
    for xs
    using assms by (simp add: sort_contract_def)
  show "mset (CompatibleProjects (PredictCompatibility sort_Slice s now system))
           = mset (filter Compatible (map (analyzeProjectCompatibility system) (projects s)))"
    by (simp add: PredictCompatibility_def predict_loop Let_def perm)
  show "mset (IncompatibleProjects (PredictCompatibility sort_Slice s now system))
           = mset (filter (\<lambda>r. \<not> Compatible r)
                     (map (analyzeProjectCompatibility system) (projects s)))"
    by (simp add: PredictCompatibility_def predict_loop Let_def perm)
qed (simp_all add: PredictCompatibility_def predict_loop Let_def)

lemma compatible_count:
  assumes "sort_contract sort_Slice"
  shows "CompatibleCount (Summary (PredictCompatibility sort_Slice s now system))
           = length (filter Compatible (map (analyzeProjectCompatibility system) (projects s)))"
  using predict_fields(1) [OF assms, of s now system] predict_fields(4) [OF assms, of s now system]
  by (metis size_mset)

lemma six_flags:
  "Compatible (analyzeProjectCompatibility scenarioA_system scenarioA_project)"
  "Compatible (analyzeProjectCompatibility scenarioA_system render_project)"
  "Compatible (analyzeProjectCompatibility scenarioA_system
                 (scenarioA_project\<lparr>Name := ''Theta Network''\<rparr>))"
  "Compatible (analyzeProjectCompatibility scenarioA_system
                 (scenarioA_project\<lparr>Name := ''Storj''\<rparr>))"
  "\<not> Compatible (analyzeProjectCompatibility scenarioA_system scenarioB_project)"
  "\<not> Compatible (analyzeProjectCompatibility scenarioA_system
                 (scenarioA_project\<lparr>Name := ''Akash Network'', NetworkMbpsMin := 200\<rparr>))"
  by (simp_all add: Compatible_analyze Compatible_run_checks any_dimension_fails_def
      cpu_fails_def ram_min_fails_def storage_fails_def ssd_fails_def gpu_presence_fails_def
      gpu_vram_fails_def network_fails_def os_fails_def scenarioA_system_def
      scenarioA_project_def render_project_def scenarioB_project_def TrimSpace_def is_space_def)

lemma six_counts:
  "CompatibleCount (Summary (PredictCompatibility insertionSort six_service 0 scenarioA_system)) = 4"
  "TotalProjects (Summary (PredictCompatibility insertionSort six_service 0 scenarioA_system)) = 6"
proof -
  have p: "projects six_service = six_projects"
    by (simp add: six_service_def NewCompatibilityService_def)
  show "CompatibleCount (Summary (PredictCompatibility insertionSort six_service 0
          scenarioA_system)) = 4"
    unfolding compatible_count [OF insertionSort_contract] p
    by (simp add: six_projects_def six_flags)
  show "TotalProjects (Summary (PredictCompatibility insertionSort six_service 0
          scenarioA_system)) = 6"
    unfolding predict_fields(3) [OF insertionSort_contract] p
    by (simp add: six_projects_def)
qed

text \<open>
  C4, as stated: one result per catalog project, the two lists adding up to the catalog
  size, and a reported compatibility rate equal to
  \<open>100.0 * compatible_count / total_projects\<close>. For the catalog of six projects of which
  four are compatible, the reported rate \<open>(4/6)*100\<close> is 4691249611844266 times
  \<open>2^-46\<close> (66.66666666666666), the formula gives 4691249611844267 times \<open>2^-46\<close>
  (66.66666666666667): the two differ in the last bit.
\<close>

theorem rate_formula_counterexample:
  "CompatibleCount (Summary (PredictCompatibility insertionSort six_service 0 scenarioA_system)) = 4
   \<and> TotalProjects (Summary (PredictCompatibility insertionSort six_service 0 scenarioA_system)) = 6
   \<and> CompatibilityRate (Summary (PredictCompatibility insertionSort six_service 0 scenarioA_system))
       = Fin (4691249611844266 / 2 ^ 46)
   \<and> rate_of_counts 4 6 = Fin (4691249611844267 / 2 ^ 46)
   \<and> \<not> f64_eq
         (CompatibilityRate (Summary (PredictCompatibility insertionSort six_service 0
                                        scenarioA_system)))
         (rate_of_counts
            (CompatibleCount (Summary (PredictCompatibility insertionSort six_service 0
                                         scenarioA_system)))
            (TotalProjects (Summary (PredictCompatibility insertionSort six_service 0
                                       scenarioA_system))))"
proof -
  have r: "CompatibilityRate (Summary (PredictCompatibility insertionSort six_service 0
              scenarioA_system)) = Fin (4691249611844266 / 2 ^ 46)"
    unfolding predict_fields(6) [OF insertionSort_contract] six_counts
    by (rule rate_4_of_6(1))
  show ?thesis
    unfolding r six_counts rate_4_of_6(2) by simp
qed

text \<open>
  C4, amended. For every system and every catalog, with a sort that meets its contract,
  \<open>PredictCompatibility\<close> returns one result per catalog project: the compatible and
  the incompatible list together are, as a multiset, the results of the scorer on the
  catalog's projects, so their lengths add up to the catalog size; the summary reports
  these lengths and the catalog size, and its compatibility rate is the \<open>float64\<close>
  value of the compatible count divided by the total count, times 100, computed from
  the reported counts with each operation rounded. For a catalog that is not empty
  and has fewer than \<open>2^53\<close> projects, this rate is a finite number within a relative
  error of \<open>2^-51\<close> of the exact 100 times the compatible count over the total count;
  for an empty catalog it is NaN.
\<close>

theorem aggregator_partition:
  assumes "sort_contract sort_Slice"
  shows "mset (CompatibleProjects (PredictCompatibility sort_Slice s now system)
               @ IncompatibleProjects (PredictCompatibility sort_Slice s now system))
           = mset (map (analyzeProjectCompatibility system) (projects s))
   \<and> length (CompatibleProjects (PredictCompatibility sort_Slice s now system))
       + length (IncompatibleProjects (PredictCompatibility sort_Slice s now system))
       = length (projects s)
   \<and> TotalProjects (Summary (PredictCompatibility sort_Slice s now system)) = length (projects s)
   \<and> CompatibleCount (Summary (PredictCompatibility sort_Slice s now system))
       = length (CompatibleProjects (PredictCompatibility sort_Slice s now system))
   \<and> IncompatibleCount (Summary (PredictCompatibility sort_Slice s now system))
       = length (IncompatibleProjects (PredictCompatibility sort_Slice s now system))
   \<and> CompatibilityRate (Summary (PredictCompatibility sort_Slice s now system))
       = f64_mul (f64_div
            (f64_of_nat (CompatibleCount (Summary (PredictCompatibility sort_Slice s now system))))
            (f64_of_nat (TotalProjects (Summary (PredictCompatibility sort_Slice s now system)))))
           (Fin 100)
   \<and> (0 < length (projects s) \<and> length (projects s) < 2 ^ 53 \<longrightarrow>
        (\<exists>y. CompatibilityRate (Summary (PredictCompatibility sort_Slice s now system)) = Fin y
           \<and> \<bar>y - 100 * real (CompatibleCount (Summary (PredictCompatibility sort_Slice s now system)))
                    / real (TotalProjects (Summary (PredictCompatibility sort_Slice s now system)))\<bar>
              \<le> 100 * real (CompatibleCount (Summary (PredictCompatibility sort_Slice s now system)))
                    / real (TotalProjects (Summary (PredictCompatibility sort_Slice s now system)))
                  * pow2 (- 51)))
   \<and> CompatibilityRate (Summary (PredictCompatibility sort_Slice (s\<lparr>projects := []\<rparr>) now system))
       = NaN"
proof -
  let ?r = "PredictCompatibility sort_Slice s now system"
  let ?rs = "map (analyzeProjectCompatibility system) (projects s)"
  note f = predict_fields [OF assms, of s now system]
  have m: "mset (filter Compatible ?rs) + mset (filter (\<lambda>r. \<not> Compatible r) ?rs) = mset ?rs"
    by (simp only: mset_filter multiset_partition [symmetric])
  have 1: "mset (CompatibleProjects ?r @ IncompatibleProjects ?r) = mset ?rs"
    using f(1) f(2) m by simp
  then have 2: "length (CompatibleProjects ?r) + length (IncompatibleProjects ?r)
                  = length (projects s)"
    by (metis length_append length_map size_mset)
  have c: "CompatibleCount (Summary ?r) \<le> TotalProjects (Summary ?r)"
    using f(3) f(4) 2 by simp
  have 7: "0 < length (projects s) \<and> length (projects s) < 2 ^ 53 \<longrightarrow>
        (\<exists>y. CompatibilityRate (Summary ?r) = Fin y
           \<and> \<bar>y - 100 * real (CompatibleCount (Summary ?r)) / real (TotalProjects (Summary ?r))\<bar>
              \<le> 100 * real (CompatibleCount (Summary ?r)) / real (TotalProjects (Summary ?r))
                  * pow2 (- 51))"
  proof
    assume h: "0 < length (projects s) \<and> length (projects s) < 2 ^ 53"
    then have "0 < TotalProjects (Summary ?r)" and "TotalProjects (Summary ?r) < 2 ^ 53"
      using f(3) by simp_all
    from this c obtain y where
      "f64_mul (f64_div (f64_of_nat (CompatibleCount (Summary ?r)))
                        (f64_of_nat (TotalProjects (Summary ?r)))) (Fin 100) = Fin y"
      and "\<bar>y - 100 * real (CompatibleCount (Summary ?r)) / real (TotalProjects (Summary ?r))\<bar>
              \<le> 100 * real (CompatibleCount (Summary ?r)) / real (TotalProjects (Summary ?r))
                  * pow2 (- 51)"
      by (rule rate_close)
    with f(6) show "\<exists>y. CompatibilityRate (Summary ?r) = Fin y
           \<and> \<bar>y - 100 * real (CompatibleCount (Summary ?r)) / real (TotalProjects (Summary ?r))\<bar>
              \<le> 100 * real (CompatibleCount (Summary ?r)) / real (TotalProjects (Summary ?r))
                  * pow2 (- 51)"
      by simp
  qed
  have e: "CompatibleCount (Summary (PredictCompatibility sort_Slice (s\<lparr>projects := []\<rparr>) now system)) = 0"
    using compatible_count [OF assms, of "s\<lparr>projects := []\<rparr>" now system] by simp
  have 8: "CompatibilityRate (Summary (PredictCompatibility sort_Slice (s\<lparr>projects := []\<rparr>) now system))
             = NaN"
    using predict_fields(6) [OF assms, of "s\<lparr>projects := []\<rparr>" now system]
          predict_fields(3) [OF assms, of "s\<lparr>projects := []\<rparr>" now system] e
    by (simp add: rate_empty)
  from 1 2 f(3) f(4) f(5) f(6) 7 8 show ?thesis by blast
qed

lemma example_results:
  "analyzeProjectCompatibility scenarioA_system scenarioB_project =
     \<lparr>ResultName = [], Compatible = False, CompatibilityScore = 0.4,
      PerformanceRating = ''Poor'', EstimatedCost = ''$0-$0/month'',
      MissingRequirements =
        [''Storage: need 1000GB, have 512GB'', ''Network speed: need 200Mbps, have 100Mbps'',
         ''OS not supported: need one of [Linux], have Windows''],
      RecommendedUpgrades = [],
      Warnings = [''This project may not be suitable for home use'']\<rparr>"
  by (simp add: scenarioA_system_def scenarioB_project_def scorer_defs)

lemma example_predict_lists:
  "CompatibleProjects (PredictCompatibility insertionSort example_service now scenarioA_system)
     = [analyzeProjectCompatibility scenarioA_system scenarioA_project]"
  "IncompatibleProjects (PredictCompatibility insertionSort example_service now scenarioA_system)
     = [analyzeProjectCompatibility scenarioA_system scenarioB_project]"
proof -
  have loop: "foldl (predict_step scenarioA_system) ([], [], 0) (projects example_service) =
      ([analyzeProjectCompatibility scenarioA_system scenarioA_project],
       [analyzeProjectCompatibility scenarioA_system scenarioB_project], 1.4)"
    by (simp add: example_service_def NewCompatibilityService_def predict_step_def Let_def
        scenarioA_eval example_results)
  show "CompatibleProjects (PredictCompatibility insertionSort example_service now scenarioA_system)
     = [analyzeProjectCompatibility scenarioA_system scenarioA_project]"
    unfolding PredictCompatibility_def loop by (simp add: insertionSort_def Let_def)
  show "IncompatibleProjects (PredictCompatibility insertionSort example_service now scenarioA_system)
     = [analyzeProjectCompatibility scenarioA_system scenarioB_project]"
    unfolding PredictCompatibility_def loop by (simp add: insertionSort_def Let_def)
qed

text \<open>With straight insertion as the sort, the catalog of the two scenario projects and
  the system of scenario A: one compatible and one incompatible result, rate 50, which
  is the exact value; and NaN once the catalog is emptied.\<close>

theorem aggregator_partition_witness:
  "sort_contract insertionSort
   \<and> 0 < length (projects example_service) \<and> length (projects example_service) < 2 ^ 53
   \<and> length (CompatibleProjects
               (PredictCompatibility insertionSort example_service 0 scenarioA_system))
       + length (IncompatibleProjects
               (PredictCompatibility insertionSort example_service 0 scenarioA_system)) = 2
   \<and> CompatibilityRate (Summary
               (PredictCompatibility insertionSort example_service 0 scenarioA_system)) = Fin 50
   \<and> \<bar>50 - 100 * real (CompatibleCount (Summary
               (PredictCompatibility insertionSort example_service 0 scenarioA_system)))
             / real (TotalProjects (Summary
               (PredictCompatibility insertionSort example_service 0 scenarioA_system)))\<bar>
       \<le> 100 * real (CompatibleCount (Summary
               (PredictCompatibility insertionSort example_service 0 scenarioA_system)))
             / real (TotalProjects (Summary
               (PredictCompatibility insertionSort example_service 0 scenarioA_system)))
           * pow2 (- 51)
   \<and> CompatibilityRate (Summary
         (PredictCompatibility insertionSort (example_service\<lparr>projects := []\<rparr>) 0
            scenarioA_system)) = NaN"
proof -
  let ?r = "PredictCompatibility insertionSort example_service 0 scenarioA_system"
  note t = aggregator_partition [OF insertionSort_contract, of example_service 0 scenarioA_system]
  have p: "length (projects example_service) = 2"
    by (simp add: example_service_def NewCompatibilityService_def)
  from t p have total: "TotalProjects (Summary ?r) = 2" by simp
  from t have count: "CompatibleCount (Summary ?r) = 1"
    by (simp add: example_predict_lists)
  from t have "CompatibilityRate (Summary ?r)
      = f64_mul (f64_div (f64_of_nat (CompatibleCount (Summary ?r)))
                         (f64_of_nat (TotalProjects (Summary ?r)))) (Fin 100)"
    by blast
  then have rate: "CompatibilityRate (Summary ?r) = Fin 50"
    unfolding total count by (simp only: rate_1_of_2)
  from t have "0 < length (projects example_service) \<and> length (projects example_service) < 2 ^ 53
      \<longrightarrow> (\<exists>y. CompatibilityRate (Summary ?r) = Fin y
           \<and> \<bar>y - 100 * real (CompatibleCount (Summary ?r)) / real (TotalProjects (Summary ?r))\<bar>
              \<le> 100 * real (CompatibleCount (Summary ?r)) / real (TotalProjects (Summary ?r))
                  * pow2 (- 51))"
    by blast
  moreover have "0 < length (projects example_service)
                 \<and> length (projects example_service) < 2 ^ 53"
    by (simp add: p)
  ultimately obtain y where "CompatibilityRate (Summary ?r) = Fin y"
    and "\<bar>y - 100 * real (CompatibleCount (Summary ?r)) / real (TotalProjects (Summary ?r))\<bar>
           \<le> 100 * real (CompatibleCount (Summary ?r)) / real (TotalProjects (Summary ?r))
               * pow2 (- 51)"
    by blast
  with rate have bound:
    "\<bar>50 - 100 * real (CompatibleCount (Summary ?r)) / real (TotalProjects (Summary ?r))\<bar>
           \<le> 100 * real (CompatibleCount (Summary ?r)) / real (TotalProjects (Summary ?r))
               * pow2 (- 51)"
    by simp
  from t have len: "length (CompatibleProjects ?r) + length (IncompatibleProjects ?r) = 2"
    using p by simp
  from t have nan: "CompatibilityRate (Summary
         (PredictCompatibility insertionSort (example_service\<lparr>projects := []\<rparr>) 0
            scenarioA_system)) = NaN"
    by blast
  show ?thesis
    using insertionSort_contract p len rate bound nan by simp
qed

section \<open>The aggregator: determinism\<close>

text \<open>
  C9. Two calls of \<open>PredictCompatibility\<close> with the same system on services that hold
  the same catalog return the same compatible list, the same incompatible list (each
  in the same order), the same summary and the same recommendations, whatever the
  clock reads at the two calls and whenever the services were started; the generation
  timestamp is the clock reading of each call.
\<close>

theorem aggregator_deterministic:
  assumes "projects s1 = projects s2"
  shows "CompatibleProjects (PredictCompatibility sort_Slice s1 now1 system)
           = CompatibleProjects (PredictCompatibility sort_Slice s2 now2 system)
   \<and> IncompatibleProjects (PredictCompatibility sort_Slice s1 now1 system)
           = IncompatibleProjects (PredictCompatibility sort_Slice s2 now2 system)
   \<and> Summary (PredictCompatibility sort_Slice s1 now1 system)
           = Summary (PredictCompatibility sort_Slice s2 now2 system)
   \<and> Recommendations (PredictCompatibility sort_Slice s1 now1 system)
           = Recommendations (PredictCompatibility sort_Slice s2 now2 system)
   \<and> GeneratedAt (PredictCompatibility sort_Slice s1 now1 system) = now1
   \<and> GeneratedAt (PredictCompatibility sort_Slice s2 now2 system) = now2"
  using assms
  by (simp add: PredictCompatibility_def predict_loop generateRecommendations_def Let_def)

text \<open>A service and the same catalog loaded again later, asked at different times.\<close>

theorem aggregator_deterministic_witness:
  "projects example_service = projects restarted_service
   \<and> startTime example_service \<noteq> startTime restarted_service
   \<and> CompatibleProjects (PredictCompatibility insertionSort example_service 5 scenarioA_system)
       = CompatibleProjects (PredictCompatibility insertionSort restarted_service 9 scenarioA_system)
   \<and> IncompatibleProjects (PredictCompatibility insertionSort example_service 5 scenarioA_system)
       = IncompatibleProjects (PredictCompatibility insertionSort restarted_service 9 scenarioA_system)
   \<and> Summary (PredictCompatibility insertionSort example_service 5 scenarioA_system)
       = Summary (PredictCompatibility insertionSort restarted_service 9 scenarioA_system)
   \<and> Recommendations (PredictCompatibility insertionSort example_service 5 scenarioA_system)
       = Recommendations (PredictCompatibility insertionSort restarted_service 9 scenarioA_system)
   \<and> GeneratedAt (PredictCompatibility insertionSort example_service 5 scenarioA_system)
       \<noteq> GeneratedAt (PredictCompatibility insertionSort restarted_service 9 scenarioA_system)"
  using aggregator_deterministic
          [of example_service restarted_service insertionSort 5 scenarioA_system 9]
  by (simp add: example_service_def restarted_service_def NewCompatibilityService_def)

section \<open>Upgrade needs\<close>

lemma Contains_iff_sublist: "Contains s sub = sublist sub s"
  by (induction s) (simp_all add: sublist_Cons_right)

lemma count_req_fields:
  "ramIssues (count_req c req) = ramIssues c + (if category_of req = Some RAM then 1 else 0)"
  "cpuIssues (count_req c req) = cpuIssues c + (if category_of req = Some CPU then 1 else 0)"
  "gpuIssues (count_req c req) = gpuIssues c + (if category_of req = Some GPU then 1 else 0)"
  "storageIssues (count_req c req)
     = storageIssues c + (if category_of req = Some StorageOrSSD then 1 else 0)"
  "networkIssues (count_req c req)
     = networkIssues c + (if category_of req = Some Network then 1 else 0)"
  by (simp_all add: count_req_def category_of_def)

lemma fold_count_req_fields:
  "ramIssues (foldl count_req c reqs)
     = ramIssues c + length (filter (\<lambda>req. category_of req = Some RAM) reqs)"
  "cpuIssues (foldl count_req c reqs)
     = cpuIssues c + length (filter (\<lambda>req. category_of req = Some CPU) reqs)"
  "gpuIssues (foldl count_req c reqs)
     = gpuIssues c + length (filter (\<lambda>req. category_of req = Some GPU) reqs)"
  "storageIssues (foldl count_req c reqs)
     = storageIssues c + length (filter (\<lambda>req. category_of req = Some StorageOrSSD) reqs)"
  "networkIssues (foldl count_req c reqs)
     = networkIssues c + length (filter (\<lambda>req. category_of req = Some Network) reqs)"
  by (induction reqs arbitrary: c) (simp_all add: count_req_fields)

lemma nested_fold_concat:
  "foldl (\<lambda>c result. foldl count_req c (MissingRequirements result)) c rs
     = foldl count_req c (concat (map MissingRequirements rs))"
  by (induction rs arbitrary: c) simp_all

lemma count_issues_fields:
  "ramIssues (count_issues incompatible) = issues RAM incompatible"
  "cpuIssues (count_issues incompatible) = issues CPU incompatible"
  "gpuIssues (count_issues incompatible) = issues GPU incompatible"
  "storageIssues (count_issues incompatible) = issues StorageOrSSD incompatible"
  "networkIssues (count_issues incompatible) = issues Network incompatible"
  by (simp_all add: count_issues_def issues_def nested_fold_concat fold_count_req_fields)

lemma analyzeUpgradeNeeds_eq:
  "analyzeUpgradeNeeds system incompatible =
     suggestion RAM incompatible @ suggestion CPU incompatible @ suggestion GPU incompatible
     @ suggestion StorageOrSSD incompatible @ suggestion Network incompatible"
  by (simp add: analyzeUpgradeNeeds_def Let_def suggestion_def count_issues_fields)

lemma upgrade_message_inj: "upgrade_message a = upgrade_message b \<Longrightarrow> a = b"
  by (cases a; cases b)
     (simp_all add: rec_ram_def rec_cpu_def rec_gpu_def rec_storage_def rec_network_def)

lemma upgrade_message_mem:
  "(upgrade_message cat \<in> set (analyzeUpgradeNeeds system incompatible))
     = (issues cat incompatible > length incompatible div 3)"
proof -
  have "(upgrade_message cat \<in> set (suggestion c incompatible))
          = (c = cat \<and> issues cat incompatible > length incompatible div 3)" for c
    using upgrade_message_inj [of cat c] by (auto simp add: suggestion_def)
  then show ?thesis
    unfolding analyzeUpgradeNeeds_eq by (cases cat) auto
qed

text \<open>
  C7. For every list of incompatible results, \<open>analyzeUpgradeNeeds\<close> counts each
  missing-requirement entry in the counter of its category, found by case-sensitive
  substring match with the first matching case taken (an entry that matches none is not
  counted), and returns, in the order RAM, CPU, GPU, storage, network, the suggestion of
  each category whose counter is strictly greater than the number of incompatible
  results divided by 3 with the quotient rounded down, and of no other category. With
  at most two incompatible results the threshold is 0 and one matching entry suffices.
  The five checks do not influence one another.
\<close>

theorem upgrade_needs:
  "analyzeUpgradeNeeds system incompatible =
     suggestion RAM incompatible @ suggestion CPU incompatible @ suggestion GPU incompatible
     @ suggestion StorageOrSSD incompatible @ suggestion Network incompatible
   \<and> count_issues incompatible =
       \<lparr>ramIssues = issues RAM incompatible, cpuIssues = issues CPU incompatible,
        gpuIssues = issues GPU incompatible, storageIssues = issues StorageOrSSD incompatible,
        networkIssues = issues Network incompatible\<rparr>
   \<and> (upgrade_message cat \<in> set (analyzeUpgradeNeeds system incompatible))
       = (issues cat incompatible > length incompatible div 3)
   \<and> (length incompatible \<le> 2 \<and> issues cat incompatible \<ge> 1
        \<longrightarrow> upgrade_message cat \<in> set (analyzeUpgradeNeeds system incompatible))"
proof (intro conjI impI)
  show "analyzeUpgradeNeeds system incompatible =
     suggestion RAM incompatible @ suggestion CPU incompatible @ suggestion GPU incompatible
     @ suggestion StorageOrSSD incompatible @ suggestion Network incompatible"
    by (rule analyzeUpgradeNeeds_eq)
  show "count_issues incompatible =
       \<lparr>ramIssues = issues RAM incompatible, cpuIssues = issues CPU incompatible,
        gpuIssues = issues GPU incompatible, storageIssues = issues StorageOrSSD incompatible,
        networkIssues = issues Network incompatible\<rparr>"
    by (cases "count_issues incompatible") (use count_issues_fields [of incompatible] in simp)
  show "(upgrade_message cat \<in> set (analyzeUpgradeNeeds system incompatible))
       = (issues cat incompatible > length incompatible div 3)"
    by (rule upgrade_message_mem)
  assume "length incompatible \<le> 2 \<and> issues cat incompatible \<ge> 1"
  then have "issues cat incompatible > length incompatible div 3"
    by simp
  then show "upgrade_message cat \<in> set (analyzeUpgradeNeeds system incompatible)"
    by (simp add: upgrade_message_mem)
qed

text \<open>The single result of scenario B: all five suggestions are returned.\<close>

theorem upgrade_needs_witness:
  "length [analyzeProjectCompatibility scenarioB_system scenarioB_project] \<le> 2
   \<and> issues RAM [analyzeProjectCompatibility scenarioB_system scenarioB_project] \<ge> 1
   \<and> upgrade_message RAM \<in> set (analyzeUpgradeNeeds scenarioB_system
         [analyzeProjectCompatibility scenarioB_system scenarioB_project])
   \<and> issues StorageOrSSD [analyzeProjectCompatibility scenarioB_system scenarioB_project] = 2
   \<and> analyzeUpgradeNeeds scenarioB_system
         [analyzeProjectCompatibility scenarioB_system scenarioB_project]
       = [rec_ram, rec_cpu, rec_gpu, rec_storage, rec_network]"
  using upgrade_needs [of scenarioB_system
          "[analyzeProjectCompatibility scenarioB_system scenarioB_project]" RAM]
  by (simp add: issues_def scenarioB_eval category_of_def suggestion_def)

section \<open>GPU VRAM shortfalls count as RAM issues\<close>

lemma Missing_fail_with:
  "MissingRequirements (fst (fail_with msg pen st)) = MissingRequirements (fst st) @ [msg]"
  by (simp add: fail_with_def split: prod.split)

lemma Missing_checks:
  "MissingRequirements (fst (check_cpu s p st)) = MissingRequirements (fst st)
     @ (if cpu_fails s p then [msg_cpu (CPUCoresMin p) (CPUCores s)] else [])"
  "MissingRequirements (fst (check_ram s p st)) = MissingRequirements (fst st)
     @ (if ram_min_fails s p then [msg_ram (RAMGBMin p) (RAMGB s)] else [])"
  "MissingRequirements (fst (check_storage s p st)) = MissingRequirements (fst st)
     @ (if storage_fails s p then [msg_storage (StorageGBMin p) (StorageGB s)] else [])"
  "MissingRequirements (fst (check_ssd s p st)) = MissingRequirements (fst st)
     @ (if ssd_fails s p then [''SSD storage required''] else [])"
  "MissingRequirements (fst (check_gpu s p st)) = MissingRequirements (fst st)
     @ (if gpu_presence_fails s p then [''Dedicated GPU required'']
        else if gpu_vram_fails s p then [msg_gpu_vram (GPUVRAMGBMin p) (GPUVRAMGB s)] else [])"
  "MissingRequirements (fst (check_network s p st)) = MissingRequirements (fst st)
     @ (if network_fails s p then [msg_network (NetworkMbpsMin p) (NetworkMbps s)] else [])"
  "MissingRequirements (fst (check_os s p st)) = MissingRequirements (fst st)
     @ (if os_fails s p then [msg_os (SupportedOS p) (OS s)] else [])"
  by (simp_all add: check_cpu_def check_ram_def check_storage_def check_ssd_def check_gpu_def
      check_network_def check_os_def cpu_fails_def ram_min_fails_def storage_fails_def
      ssd_fails_def gpu_presence_fails_def gpu_vram_fails_def network_fails_def
      isOSCompatible_iff Missing_fail_with split: prod.split)

lemma Missing_analyze:
  "MissingRequirements (analyzeProjectCompatibility s p) =
     (if cpu_fails s p then [msg_cpu (CPUCoresMin p) (CPUCores s)] else [])
     @ (if ram_min_fails s p then [msg_ram (RAMGBMin p) (RAMGB s)] else [])
     @ (if storage_fails s p then [msg_storage (StorageGBMin p) (StorageGB s)] else [])
     @ (if ssd_fails s p then [''SSD storage required''] else [])
     @ (if gpu_presence_fails s p then [''Dedicated GPU required'']
        else if gpu_vram_fails s p then [msg_gpu_vram (GPUVRAMGBMin p) (GPUVRAMGB s)] else [])
     @ (if network_fails s p then [msg_network (NetworkMbpsMin p) (NetworkMbps s)] else [])
     @ (if os_fails s p then [msg_os (SupportedOS p) (OS s)] else [])"
  (is "_ = ?rhs")
proof -
  have "MissingRequirements (analyzeProjectCompatibility s p)
          = MissingRequirements (fst (run_checks s p))"
    by (simp add: analyzeProjectCompatibility_def Let_def split: prod.split)
  also have "\<dots> = ?rhs"
    unfolding run_checks_def Missing_checks by (simp add: init_result_def)
  finally show ?thesis .
qed

lemma Contains_vram_RAM: "Contains (msg_gpu_vram need have) ''RAM''"
  by (simp add: msg_gpu_vram_def)

text \<open>
  C10. The diagnostic of a GPU VRAM shortfall, ``GPU VRAM: need ..., have ...'' for any
  two numbers, contains ``RAM'', which the classifier tests first: the entry increments
  the RAM counter and leaves the GPU counter as it is, and a result whose only missing
  requirement is this entry yields the RAM suggestion alone. The scorer emits this
  diagnostic whenever the VRAM dimension fails.
\<close>

theorem vram_counts_as_ram:
  "count_req c (msg_gpu_vram need have) = c\<lparr>ramIssues := ramIssues c + 1\<rparr>
   \<and> gpuIssues (count_req c (msg_gpu_vram need have)) = gpuIssues c
   \<and> category_of (msg_gpu_vram need have) = Some RAM
   \<and> analyzeUpgradeNeeds system [r\<lparr>MissingRequirements := [msg_gpu_vram need have]\<rparr>] = [rec_ram]
   \<and> (gpu_vram_fails system project \<longrightarrow>
        msg_gpu_vram (GPUVRAMGBMin project) (GPUVRAMGB system)
          \<in> set (MissingRequirements (analyzeProjectCompatibility system project)))"
proof (intro conjI impI)
  show "count_req c (msg_gpu_vram need have) = c\<lparr>ramIssues := ramIssues c + 1\<rparr>"
    by (simp add: count_req_def Contains_vram_RAM)
  then show "gpuIssues (count_req c (msg_gpu_vram need have)) = gpuIssues c"
    by simp
  show cat: "category_of (msg_gpu_vram need have) = Some RAM"
    by (simp add: category_of_def Contains_vram_RAM)
  show "analyzeUpgradeNeeds system [r\<lparr>MissingRequirements := [msg_gpu_vram need have]\<rparr>]
          = [rec_ram]"
    by (simp add: analyzeUpgradeNeeds_eq suggestion_def issues_def cat)
  assume "gpu_vram_fails system project"
  then show "msg_gpu_vram (GPUVRAMGBMin project) (GPUVRAMGB system)
               \<in> set (MissingRequirements (analyzeProjectCompatibility system project))"
    by (simp add: Missing_analyze gpu_vram_fails_def)
qed

text \<open>A system with a 4 GB GPU against a project that needs 8 GB of VRAM.\<close>

theorem vram_counts_as_ram_witness:
  "gpu_vram_fails vram_system render_project
   \<and> MissingRequirements (analyzeProjectCompatibility vram_system render_project)
       = [''GPU VRAM: need 8GB, have 4GB'']
   \<and> category_of ''GPU VRAM: need 8GB, have 4GB'' = Some RAM
   \<and> analyzeUpgradeNeeds vram_system [analyzeProjectCompatibility vram_system render_project]
       = [rec_ram]"
proof -
  have m: "msg_gpu_vram 8 4 = ''GPU VRAM: need 8GB, have 4GB''"
    by (simp add: msg_gpu_vram_def fmt_d_def digits10.simps digit_def)
  have f: "gpu_vram_fails vram_system render_project"
    by (simp add: gpu_vram_fails_def gpu_presence_fails_def vram_system_def render_project_def)
  have e: "MissingRequirements (analyzeProjectCompatibility vram_system render_project)
       = [''GPU VRAM: need 8GB, have 4GB'']"
    by (simp add: vram_system_def render_project_def scorer_defs)
  have u: "analyzeProjectCompatibility vram_system render_project
       = (analyzeProjectCompatibility vram_system render_project)
           \<lparr>MissingRequirements := [msg_gpu_vram 8 4]\<rparr>"
    by (simp add: e m)
  note t = vram_counts_as_ram [of "count_issues []" 8 4 vram_system
            "analyzeProjectCompatibility vram_system render_project" render_project]
  have c: "category_of ''GPU VRAM: need 8GB, have 4GB'' = Some RAM"
    using t by (simp add: m)
  have "analyzeUpgradeNeeds vram_system
          [(analyzeProjectCompatibility vram_system render_project)
             \<lparr>MissingRequirements := [msg_gpu_vram 8 4]\<rparr>] = [rec_ram]"
    using t by blast
  then have a: "analyzeUpgradeNeeds vram_system
          [analyzeProjectCompatibility vram_system render_project] = [rec_ram]"
    by (subst u)
  show ?thesis
    using f e c a by simp
qed

section \<open>Catalog loading: the loop\<close>

lemma parse_line_irrelevant:
  "parseProjectRecord record fieldMap n = parseProjectRecord record fieldMap m"
  by (simp add: parseProjectRecord_def)

lemma read_rows_no_error:
  "\<not> row_read_error rows \<Longrightarrow>
   read_rows fieldMap rows n ps = Inr (ps @ valid_projects fieldMap rows)"
proof (induction rows arbitrary: n ps)
  case Nil
  then show ?case by simp
next
  case (Cons r rows)
  then show ?case
    by (cases r)
       (simp_all add: row_read_error_def parse_line_irrelevant [of _ _ n 0] split: sum.split)
qed

lemma read_rows_error:
  "row_read_error rows \<Longrightarrow> isl (read_rows fieldMap rows n ps)"
proof (induction rows arbitrary: n ps)
  case Nil
  then show ?case by (simp add: row_read_error_def)
next
  case (Cons r rows)
  then show ?case
    by (cases r) (simp_all add: row_read_error_def split: sum.split)
qed

lemma load_cases:
  "LoadDePINSpecs None = Inl OpenFailed"
  "LoadDePINSpecs (Some []) = Inl HeaderReadFailed"
  "LoadDePINSpecs (Some (ReadError # rest)) = Inl HeaderReadFailed"
  "row_read_error rest \<Longrightarrow> isl (LoadDePINSpecs (Some (Row header # rest)))"
  "\<not> row_read_error rest \<Longrightarrow>
     LoadDePINSpecs (Some (Row header # rest)) =
       (if valid_projects (createFieldMap header) rest = [] then Inl NoValidProjects
        else Inr (valid_projects (createFieldMap header) rest))"
proof -
  show "row_read_error rest \<Longrightarrow> isl (LoadDePINSpecs (Some (Row header # rest)))"
    using read_rows_error [of rest "createFieldMap header" 2 "[]"]
    by (cases "read_rows (createFieldMap header) rest 2 []") (simp_all add: LoadDePINSpecs_def)
qed (simp_all add: LoadDePINSpecs_def read_rows_no_error)

lemma valid_projects_skip:
  "isl (parseProjectRecord bad fieldMap n) \<Longrightarrow>
   valid_projects fieldMap (before @ Row bad # after) = valid_projects fieldMap (before @ after)"
proof (induction before)
  case Nil
  then show ?case
    by (cases "parseProjectRecord bad fieldMap n")
       (simp_all add: parse_line_irrelevant [of _ _ 0 n])
next
  case (Cons r before)
  then show ?case by (cases r) (simp_all split: sum.split)
qed

section \<open>Catalog loading: evaluation\<close>

lemma short_header_map:
  "createFieldMap short_header =
     [''project_name'' \<mapsto> 0, ''cpu_cores_min'' \<mapsto> 1, ''estimated_monthly_cost_usd_max'' \<mapsto> 2]"
  by (simp add: createFieldMap_def short_header_def ToLower_def ReplaceAll_def TrimSpace_def
      is_space_def upper_letters_def lower_letters_def numeral_2_eq_2)

lemmas parse_defs = parseProjectRecord_def validateProject_def validateProject_copy_def
  short_header_map TrimSpace_def is_space_def Atoi_def is_digit_def digits_value_def Let_def

lemma parse_helium:
  "parseProjectRecord helium_row (createFieldMap short_header) n = Inr helium_project"
  by (simp add: helium_row_def helium_project_def parse_defs)

lemma parse_nameless:
  "parseProjectRecord nameless_row (createFieldMap short_header) n = Inl ProjectNameRequired"
  by (simp add: nameless_row_def parse_defs)

lemma parse_big:
  "parseProjectRecord big_row (createFieldMap short_header) n
     = Inl (ValidationFailed (InvalidCPUCoresMin 128))"
  by (simp add: big_row_def parse_defs)

lemma validate_None:
  "validateProject p = None \<Longrightarrow>
     Name p \<noteq> [] \<and> 0 \<le> CPUCoresMin p \<and> CPUCoresMin p \<le> 64
         \<and> 0 \<le> RAMGBMin p \<and> RAMGBMin p \<le> 1024
         \<and> 0 \<le> StorageGBMin p \<and> StorageGBMin p \<le> 100000
         \<and> 0 \<le> NetworkMbpsMin p \<and> NetworkMbpsMin p \<le> 100000"
  by (simp add: validateProject_def validateProject_copy_def Let_def split: if_splits)

lemma parse_Inr:
  assumes "parseProjectRecord record fieldMap n = Inr p"
  shows "validateProject p = None"
    and "SupportedOS p = getStringField record fieldMap [''supported_os'', ''os_support'']"
    and "CostCategory p = getStringField record fieldMap [''cost_category'']"
  using assms
  by (auto simp add: parseProjectRecord_def Let_def
           simp del: getStringField.simps getIntField.simps getBoolField.simps
           split: if_splits option.splits)

lemma valid_projects_validated:
  "p \<in> set (valid_projects fieldMap rows) \<Longrightarrow> validateProject p = None"
proof (induction rows)
  case Nil
  then show ?case by simp
next
  case (Cons r rows)
  then show ?case
    by (cases r) (auto split: sum.splits dest: parse_Inr(1))
qed

section \<open>Catalog loading: failures and skipped rows\<close>

text \<open>
  C8, as stated: loading skips a single malformed row and fails exactly when the source
  is missing or unreadable, the header cannot be read, or no valid record remains. In
  the file below the header is read and the second line is a valid record, but the
  third line is not well-formed CSV: the load returns an error for line 3, neither
  skipping the row nor keeping the record before it.
\<close>

theorem bad_row_aborts_load_counterexample:
  "\<not> (isl (LoadDePINSpecs bad_quote_file) =
        (source_missing bad_quote_file \<or> header_unreadable bad_quote_file
         \<or> valid_records bad_quote_file = []))
   \<and> LoadDePINSpecs bad_quote_file = Inl (LineReadFailed 3)
   \<and> valid_records bad_quote_file = [helium_project]"
proof -
  have l: "LoadDePINSpecs bad_quote_file = Inl (LineReadFailed 3)"
    by (simp add: bad_quote_file_def LoadDePINSpecs_def parse_helium)
  have v: "valid_records bad_quote_file = [helium_project]"
    by (simp add: bad_quote_file_def valid_records_def parse_helium)
  show ?thesis
    by (simp add: l v) (simp add: bad_quote_file_def source_missing_def header_unreadable_def)
qed

lemma load_characterisation:
  "isl (LoadDePINSpecs file) =
     (source_missing file \<or> header_unreadable file \<or> row_read_error (data_rows file)
      \<or> valid_records file = [])
   \<and> (\<not> isl (LoadDePINSpecs file) \<longrightarrow>
        LoadDePINSpecs file = Inr (valid_records file) \<and> valid_records file \<noteq> [])"
proof (cases "file")
  case None
  then show ?thesis by (simp add: load_cases source_missing_def)
next
  case (Some reads)
  show ?thesis
  proof (cases reads)
    case Nil
    with Some show ?thesis by (simp add: load_cases header_unreadable_def)
  next
    case (Cons r rest)
    show ?thesis
    proof (cases r)
      case ReadError
      with Some Cons show ?thesis by (simp add: load_cases header_unreadable_def)
    next
      case (Row header)
      show ?thesis
      proof (cases "row_read_error rest")
        case True
        with Some Cons Row show ?thesis
          by (simp add: load_cases data_rows_def)
      next
        case False
        with Some Cons Row show ?thesis
          by (simp add: load_cases data_rows_def valid_records_def source_missing_def
              header_unreadable_def)
      qed
    qed
  qed
qed

lemma load_skips_unparsable_row:
  assumes "isl (parseProjectRecord bad (createFieldMap header) n)"
    and "\<not> row_read_error (before @ after)"
  shows "LoadDePINSpecs (Some (Row header # before @ Row bad # after))
          = LoadDePINSpecs (Some (Row header # before @ after))"
proof -
  from assms(2) have "\<not> row_read_error (before @ Row bad # after)"
    by (simp add: row_read_error_def)
  with assms show ?thesis
    by (simp add: load_cases valid_projects_skip [of bad _ n])
qed

text \<open>
  C8, amended. Catalog loading skips a data row that the CSV reader delivers but that
  fails record parsing or validation (no project name, a CPU, RAM, storage or network
  minimum out of range) and goes on with the rest of the file. It returns an error
  exactly when the file cannot be opened, the header cannot be read, the CSV reader
  reports an error on a data row (a row that is not well-formed CSV ends the load), or
  no valid record remains; otherwise it returns the valid records, in file order. So
  it never returns an empty catalog.
\<close>

theorem load_outcome:
  "isl (LoadDePINSpecs file) =
     (source_missing file \<or> header_unreadable file \<or> row_read_error (data_rows file)
      \<or> valid_records file = [])
   \<and> (\<not> isl (LoadDePINSpecs file) \<longrightarrow>
        LoadDePINSpecs file = Inr (valid_records file) \<and> valid_records file \<noteq> [])
   \<and> (isl (parseProjectRecord bad (createFieldMap header) n)
        \<and> \<not> row_read_error (before @ after) \<longrightarrow>
        LoadDePINSpecs (Some (Row header # before @ Row bad # after))
          = LoadDePINSpecs (Some (Row header # before @ after)))"
  using load_characterisation [of "file"] load_skips_unparsable_row [of bad header n before after]
  by blast

text \<open>A file whose first data row has no project name and whose last has 128 CPU
  cores: one project is loaded, and the file without the nameless row loads the same.\<close>

theorem load_outcome_witness:
  "\<not> isl (LoadDePINSpecs mixed_file)
   \<and> LoadDePINSpecs mixed_file = Inr [helium_project]
   \<and> isl (parseProjectRecord nameless_row (createFieldMap short_header) 2)
   \<and> \<not> row_read_error ([] @ [Row helium_row, Row big_row])
   \<and> LoadDePINSpecs (Some (Row short_header # [] @ Row nameless_row
                              # [Row helium_row, Row big_row]))
       = LoadDePINSpecs (Some (Row short_header # [] @ [Row helium_row, Row big_row]))"
proof -
  have v: "valid_records mixed_file = [helium_project]"
    by (simp add: mixed_file_def valid_records_def parse_helium parse_nameless parse_big)
  have r: "\<not> row_read_error (data_rows mixed_file)"
    by (simp add: mixed_file_def data_rows_def row_read_error_def)
  have s: "\<not> source_missing mixed_file \<and> \<not> header_unreadable mixed_file"
    by (simp add: mixed_file_def source_missing_def header_unreadable_def)
  have p: "isl (parseProjectRecord nameless_row (createFieldMap short_header) 2)"
    by (simp add: parse_nameless)
  have q: "\<not> row_read_error ([] @ [Row helium_row, Row big_row])"
    by (simp add: row_read_error_def)
  note t = load_outcome [of mixed_file nameless_row short_header 2 "[]"
                            "[Row helium_row, Row big_row]"]
  from t v r s have a: "\<not> isl (LoadDePINSpecs mixed_file)" by simp
  with t v have b: "LoadDePINSpecs mixed_file = Inr [helium_project]" by simp
  from t p q have c: "LoadDePINSpecs (Some (Row short_header # [] @ Row nameless_row
                              # [Row helium_row, Row big_row]))
       = LoadDePINSpecs (Some (Row short_header # [] @ [Row helium_row, Row big_row]))"
    by blast
  show ?thesis using a b p q c by blast
qed

section \<open>Catalog loading: field defaults\<close>

lemma loaded_projects_in_range:
  assumes "LoadDePINSpecs file = Inr ps" and "p \<in> set ps"
  shows "Name p \<noteq> [] \<and> 0 \<le> CPUCoresMin p \<and> CPUCoresMin p \<le> 64
         \<and> 0 \<le> RAMGBMin p \<and> RAMGBMin p \<le> 1024
         \<and> 0 \<le> StorageGBMin p \<and> StorageGBMin p \<le> 100000
         \<and> 0 \<le> NetworkMbpsMin p \<and> NetworkMbpsMin p \<le> 100000"
proof -
  from assms(1) have "ps = valid_records file"
    using load_characterisation [of "file"] by simp
  with assms(2) have "validateProject p = None"
    by (auto simp add: valid_records_def dest: valid_projects_validated
             split: option.splits list.splits read_result.splits)
  then show ?thesis by (rule validate_None)
qed

text \<open>
  C6 says that every record the loader returns has its defaults applied: a missing cost
  category replaced by one inferred from the cost range, a missing list of supported
  systems replaced by the three known ones. The loader rejects records without a name
  or with a minimum out of range (\<open>loaded_projects_in_range\<close>), but it returns each
  record with these two fields as they were read (\<open>parse_Inr\<close>): \<open>validateProject\<close>
  sets the defaults on its own copy. For a file with the columns project name, CPU
  cores and maximal cost and the row of Helium IoT, the loaded record has an empty cost
  category and an empty list of supported systems, while the copy inside
  \<open>validateProject\<close> ends with ``Medium'' and ``Linux,Windows,macOS''.
\<close>

theorem defaults_not_applied:
  "LoadDePINSpecs (Some [Row short_header, Row helium_row]) = Inr [helium_project]
   \<and> SupportedOS helium_project = []
   \<and> CostCategory helium_project = []
   \<and> validateProject_copy helium_project =
       Inr (helium_project\<lparr>Type := ''Unknown'', NodeType := ''Standard'', StorageType := ''Any'',
                           CostCategory := ''Medium'', SupportedOS := ''Linux,Windows,macOS''\<rparr>)"
proof (intro conjI)
  show "LoadDePINSpecs (Some [Row short_header, Row helium_row]) = Inr [helium_project]"
    by (simp add: LoadDePINSpecs_def parse_helium)
  show "validateProject_copy helium_project =
       Inr (helium_project\<lparr>Type := ''Unknown'', NodeType := ''Standard'', StorageType := ''Any'',
                           CostCategory := ''Medium'', SupportedOS := ''Linux,Windows,macOS''\<rparr>)"
    by (simp add: validateProject_copy_def helium_project_def Let_def)
qed (simp_all add: helium_project_def)

end
